theory Spec2Isabelle
  imports Complex_Main "HOL-Library.Word"
begin

section \<open>The Pachyderm engine of doorstep: data model\<close>

text \<open>
  The development embeds \<^verbatim>\<open>src/ltldoorstep/engines/pachyderm.py\<close> (class
  \<^verbatim>\<open>PachydermEngine\<close>) and \<^verbatim>\<open>pachyderm_proxy/commit.py\<close> (class
  \<^verbatim>\<open>PachydermCommit\<close>). Python \<^verbatim>\<open>str\<close> is \<open>string\<close>, \<^verbatim>\<open>bytes\<close> is a list of
  8-bit words, exceptions are values of the type \<open>error\<close>, and the calls made to the cluster
  clients are appended to a trace.
\<close>

type_synonym path = string
type_synonym bytes = "8 word list"

text \<open>What \<^verbatim>\<open>json.load\<close> returns; \<open>JNull\<close> is Python's \<^verbatim>\<open>None\<close>.\<close>

datatype json =
    JNull
  | JBool bool
  | JNum rat
  | JStr string
  | JArr "json list"
  | JObj "(string \<times> json) list"

text \<open>Python truthiness, as tested by \<^verbatim>\<open>if not self.pipeline_definition\<close>.\<close>

fun truthy :: "json \<Rightarrow> bool" where
  "truthy JNull = False"
| "truthy (JBool b) = b"
| "truthy (JNum r) = (r \<noteq> 0)"
| "truthy (JStr s) = (s \<noteq> [])"
| "truthy (JArr xs) = (xs \<noteq> [])"
| "truthy (JObj kvs) = (kvs \<noteq> [])"

text \<open>A log entry of a job; \<^verbatim>\<open>log.message\<close> is the only attribute the engine reads.\<close>

record log =
  message :: string

datatype error =
    FileNotFoundError path
  | JSONDecodeError
  | UnicodeDecodeError
  | KeyError string
  | AttributeError string
  | TypeError
  | ProvisioningError string
  | RetryExhausted string
  | JobFailedException "log list"
  | NotFound path
  | UnboundLocalError
  | CancelledError

text \<open>
  The job states. The source names \<^verbatim>\<open>pypachy.JOB_STARTING\<close> and \<^verbatim>\<open>pypachy.JOB_RUNNING\<close>;
  the library that declares them is not part of the repository, and the five states are
  those of the specification's job life cycle.
\<close>

datatype job_state = JOB_PENDING | JOB_STARTING | JOB_RUNNING | JOB_SUCCEEDED | JOB_FAILED

text \<open>
  A job as the poller observes it: \<open>state_at k\<close> is the state that the \<open>k\<close>-th query
  of the job state returns (counted from 0), \<open>job_logs\<close> the log lines the cluster
  holds for it.
\<close>

record job =
  state_at :: "nat \<Rightarrow> job_state"
  job_logs :: "log list"

section \<open>The job-state wait\<close>

text \<open>What a polling task has done so far: the number of state queries, the delays slept, and
  what it wrote to standard output.\<close>

datatype out = Write string | PrintLog log | Print string

record poller =
  polls :: nat
  sleeps :: "rat list"
  stdout :: "out list"

definition retry_count :: nat where
  "retry_count = 120"

definition retry_delay :: rat where
  "retry_delay = 1"

definition retry_processing_count :: nat where
  "retry_processing_count = 50"

text \<open>\<^verbatim>\<open>_tick_callback\<close> of \<^verbatim>\<open>_wait_for_pipeline\<close>: write a dot, then sleep \<^verbatim>\<open>retry_delay\<close>.\<close>

definition tick_callback :: "rat \<Rightarrow> poller \<Rightarrow> poller" where
  "tick_callback delay s = s\<lparr>stdout := stdout s @ [Write ''.''], sleeps := sleeps s @ [delay]\<rparr>"

text \<open>
  Modelled from the spec: \<^verbatim>\<open>wait_for_run\<close> of \<^verbatim>\<open>pachyderm_proxy/pipeline.py\<close> is missing
  from the sources. Section 4.3 of the specification: it polls the job state, calls the tick
  callback once per attempt, returns as soon as the state has left the set of states it waits
  in, and fails with a retry-exhausted error after \<open>retry_count\<close> unsuccessful attempts; a
  resulting state \<^verbatim>\<open>FAILED\<close> raises the job-failed error with the job's log lines. The
  states waited in default to \<^verbatim>\<open>PENDING\<close> (phase "start").
\<close>

definition default_waiting_states :: "job_state list" where
  "default_waiting_states = [JOB_PENDING]"

fun wait_for_run ::
  "job \<Rightarrow> nat \<Rightarrow> job_state list \<Rightarrow> (poller \<Rightarrow> poller) \<Rightarrow> string \<Rightarrow> poller
     \<Rightarrow> (error + job_state) \<times> poller" where
  "wait_for_run j 0 waiting tick error_suffix s = (Inl (RetryExhausted error_suffix), s)"
| "wait_for_run j (Suc n) waiting tick error_suffix s =
     (let st = state_at j (polls s); s1 = s\<lparr>polls := Suc (polls s)\<rparr>
      in if st \<in> set waiting then wait_for_run j n waiting tick error_suffix (tick s1)
         else if st = JOB_FAILED then (Inl (JobFailedException (job_logs j)), s1)
         else (Inr st, s1))"

text \<open>\<^verbatim>\<open>PachydermEngine._wait_for_pipeline\<close>: the start phase, then the finish phase.\<close>

definition underscore_wait_for_pipeline ::
  "job \<Rightarrow> nat \<Rightarrow> nat \<Rightarrow> rat \<Rightarrow> poller \<Rightarrow> (error + job_state) \<times> poller" where
  "underscore_wait_for_pipeline pipeline retry_count' retry_processing_count' retry_delay' s =
     (case wait_for_run pipeline retry_count' default_waiting_states
             (tick_callback retry_delay') '' to start'' s of
        (Inl e, s1) \<Rightarrow> (Inl e, s1)
      | (Inr _, s1) \<Rightarrow>
          wait_for_run pipeline retry_processing_count' [JOB_STARTING, JOB_RUNNING]
            (tick_callback retry_delay') '' to finish'' s1)"

text \<open>Python's \<^verbatim>\<open>str.rstrip()\<close> and \<^verbatim>\<open>'\n'.join(...)\<close>.\<close>

definition isspace :: "char \<Rightarrow> bool" where
  "isspace c = (of_char c \<in> set [9, 10, 11, 12, 13, 28, 29, 30, 31, 32, 133, 160 :: nat])"

definition rstrip :: "string \<Rightarrow> string" where
  "rstrip s = rev (dropWhile isspace (rev s))"

definition newline :: string where
  "newline = [CHR 0x0A]"

fun join :: "string \<Rightarrow> string list \<Rightarrow> string" where
  "join sep [] = []"
| "join sep [x] = x"
| "join sep (x # y # ys) = x @ sep @ join sep (y # ys)"

text \<open>
  \<^verbatim>\<open>PachydermEngine.wait_for_pipeline\<close>: a job-failed error is printed (the first log entry,
  then all messages) and raised again; any other error passes; on success the method returns
  \<^verbatim>\<open>None\<close>.
\<close>

definition wait_for_pipeline :: "job \<Rightarrow> poller \<Rightarrow> (error + unit) \<times> poller" where
  "wait_for_pipeline pipeline s =
     (case underscore_wait_for_pipeline pipeline retry_count retry_processing_count retry_delay s of
        (Inl (JobFailedException logs), s1) \<Rightarrow>
          (Inl (JobFailedException logs),
           if logs \<noteq> []
           then s1\<lparr>stdout := stdout s1 @
                  [PrintLog (hd logs), Print (join newline (map (\<lambda>l. rstrip (message l)) logs))]\<rparr>
           else s1)
      | (Inl e, s1) \<Rightarrow> (Inl e, s1)
      | (Inr job, s1) \<Rightarrow> (Inr (), s1))"

definition poller0 :: poller where
  "poller0 = \<lparr>polls = 0, sleeps = [], stdout = []\<rparr>"

section \<open>Commits and provenance\<close>

text \<open>An entry of a commit's provenance: the dictionary with the keys \<^verbatim>\<open>'id'\<close> and
  \<^verbatim>\<open>'repo_name'\<close> that \<^verbatim>\<open>from_raw\<close> builds.\<close>

record provenance_entry =
  prov_id :: string
  repo_name :: string

text \<open>
  The value of the attribute \<^verbatim>\<open>_repo\<close> of a commit: the name of a repository, or the
  cluster's own repository message, which is what \<^verbatim>\<open>from_raw\<close> stores
  (\<^verbatim>\<open>commit.commit.repo\<close>). The conversion \<^verbatim>\<open>%s\<close> prints a name as it is, and a
  repository message as its one field: \<^verbatim>\<open>name:\<close>, the name in double quotes, and a newline.
\<close>

datatype repo_value = RepoName string | RepoMessage string

fun str_repo :: "repo_value \<Rightarrow> string" where
  "str_repo (RepoName n) = n"
| "str_repo (RepoMessage n) = ''name: '' @ [CHR 0x22] @ n @ [CHR 0x22] @ newline"

text \<open>Class \<^verbatim>\<open>PachydermCommit\<close>; \<open>commit_provenance = None\<close> is \<^verbatim>\<open>_provenance = None\<close>.\<close>

record PachydermCommit =
  commit_repo :: repo_value
  commit_name :: string
  commit_provenance :: "provenance_entry list option"

text \<open>The cluster's own commit record, as far as \<^verbatim>\<open>from_raw\<close> reads it;
  \<open>raw_commit_repo\<close> is the name in its repository message.\<close>

record raw_provenance =
  raw_prov_id :: string
  raw_prov_repo_name :: string

record raw_commit =
  raw_commit_repo :: string
  raw_commit_id :: string
  raw_commit_provenance :: "raw_provenance list"

definition from_raw :: "raw_commit \<Rightarrow> PachydermCommit" where
  "from_raw commit =
     (let provenance =
            (if raw_commit_provenance commit \<noteq> []
             then Some (map (\<lambda>prov. \<lparr>prov_id = raw_prov_id prov,
                                      repo_name = raw_prov_repo_name prov\<rparr>)
                          (raw_commit_provenance commit))
             else None)
      in \<lparr>commit_repo = RepoMessage (raw_commit_repo commit), commit_name = raw_commit_id commit,
          commit_provenance = provenance\<rparr>)"

definition get_provenance :: "PachydermCommit \<Rightarrow> provenance_entry list option" where
  "get_provenance c = commit_provenance c"

definition get_full_name :: "PachydermCommit \<Rightarrow> string" where
  "get_full_name c = str_repo (commit_repo c) @ ''/'' @ commit_name c"

section \<open>The world of a run\<close>

text \<open>The value passed as \<^verbatim>\<open>content\<close>: a \<^verbatim>\<open>str\<close> (an object key) or \<^verbatim>\<open>bytes\<close>.\<close>

datatype content = Str string | Bytes bytes

text \<open>The calls that reach the file system and the cluster, in the order they are made.\<close>

datatype action =
    OpenFile path
  | CreateRepo string
  | DeleteRepo string
  | CreatePipeline string
  | DeletePipeline string
  | CleanupFailed string
  | StartCommit string string
  | FinishCommit string
  | PutFileBytes string path content
  | PutFileUrl string path string
  | PullOutput string path

text \<open>An asyncio task or future.\<close>

datatype task = NotStarted | Pending | Finished "error + unit" | Cancelled

text \<open>
  The mutable state: the trace of calls, the attribute \<^verbatim>\<open>pipeline_definition\<close> in the
  dictionary of each engine instance (instances are numbered; an absent key is an attribute
  the instance does not have), the \<^verbatim>\<open>asyncio.Queue\<close> of \<^verbatim>\<open>monitor_pipeline\<close>, the
  number of commits taken from the subscription, whether the subscription is open, and the two
  tasks of the completion race.
\<close>

record world =
  trace :: "action list"
  instance_pipeline_definition :: "nat \<rightharpoonup> json"
  queue :: "PachydermCommit list"
  received :: nat
  subscribed :: bool
  watch_task :: task
  pipeline_fut :: task

text \<open>
  What a run finds outside itself: the local files, the codecs and other library functions of
  Python, the identifier \<^verbatim>\<open>uuid.uuid4()\<close> returns, and the behaviour of the cluster: which
  creations and deletions fail, the identifier of a new commit, the commits the subscription
  delivers (in order), after how many of them the job-wait task completes, the job, and the
  files of the output commit (as the chunks \<^verbatim>\<open>pull_output\<close> yields).
\<close>

record env =
  files :: "path \<rightharpoonup> string"
  pipeline_template :: path
  json_load :: "string \<Rightarrow> json option"
  encode_utf8 :: "string \<Rightarrow> bytes"
  decode_utf8 :: "bytes \<Rightarrow> string option"
  repr_bytes :: "bytes \<Rightarrow> string"
  uuid4 :: string
  create_fails :: "string \<Rightarrow> bool"
  delete_fails :: "string \<Rightarrow> bool"
  new_commit :: "string \<Rightarrow> string \<Rightarrow> string"
  commit_stream :: "PachydermCommit list"
  job_wait_after :: nat
  the_job :: job
  output_files :: "path \<rightharpoonup> bytes list"

text \<open>A coroutine or method either returns (a value or an exception) or never returns.\<close>

datatype 'a outcome = Returns "error + 'a" world | Hangs world

fun world_of :: "'a outcome \<Rightarrow> world" where
  "world_of (Returns r w) = w"
| "world_of (Hangs w) = w"

definition returns :: "'a \<Rightarrow> world \<Rightarrow> 'a outcome" where
  "returns a w = Returns (Inr a) w"

definition raises :: "error \<Rightarrow> world \<Rightarrow> 'a outcome" where
  "raises e w = Returns (Inl e) w"

text \<open>Sequencing of statements: an exception or a hang of the first ends the block.\<close>

definition and_then ::
  "(world \<Rightarrow> 'a outcome) \<Rightarrow> ('a \<Rightarrow> world \<Rightarrow> 'b outcome) \<Rightarrow> world \<Rightarrow> 'b outcome" where
  "and_then m f w =
     (case m w of
        Returns (Inr a) w1 \<Rightarrow> f a w1
      | Returns (Inl e) w1 \<Rightarrow> Returns (Inl e) w1
      | Hangs w1 \<Rightarrow> Hangs w1)"

text \<open>
  The \<^verbatim>\<open>with\<close> statement over a context manager whose exit neither raises nor suppresses
  an exception: enter, run the body, and run the exit whenever the body returns or raises.
\<close>

definition with_cm ::
  "(world \<Rightarrow> 'r outcome) \<Rightarrow> ('r \<Rightarrow> world \<Rightarrow> world) \<Rightarrow> ('r \<Rightarrow> world \<Rightarrow> 'a outcome)
     \<Rightarrow> world \<Rightarrow> 'a outcome" where
  "with_cm enter exit body w =
     (case enter w of
        Returns (Inl e) w1 \<Rightarrow> Returns (Inl e) w1
      | Hangs w1 \<Rightarrow> Hangs w1
      | Returns (Inr r) w1 \<Rightarrow>
          (case body r w1 of
             Returns res w2 \<Rightarrow> Returns res (exit r w2)
           | Hangs w2 \<Rightarrow> Hangs w2))"

definition call :: "action \<Rightarrow> world \<Rightarrow> world" where
  "call a w = w\<lparr>trace := trace w @ [a]\<rparr>"

text \<open>\<^verbatim>\<open>with open(p, 'r') as file_obj\<close> and \<^verbatim>\<open>file_obj.read()\<close>.\<close>

definition open_read :: "env \<Rightarrow> path \<Rightarrow> world \<Rightarrow> string outcome" where
  "open_read env p w =
     (case files env p of
        None \<Rightarrow> Returns (Inl (FileNotFoundError p)) (call (OpenFile p) w)
      | Some text \<Rightarrow> Returns (Inr text) (call (OpenFile p) w))"

section \<open>The pipeline definition\<close>

text \<open>The class attribute \<^verbatim>\<open>pipeline_definition = None\<close>; no statement assigns to it.\<close>

definition class_pipeline_definition :: json where
  "class_pipeline_definition = JNull"

text \<open>The attribute lookup \<^verbatim>\<open>self.pipeline_definition\<close>: the instance first, then the class.\<close>

definition pipeline_definition :: "world \<Rightarrow> nat \<Rightarrow> json" where
  "pipeline_definition w self =
     (case instance_pipeline_definition w self of
        Some d \<Rightarrow> d
      | None \<Rightarrow> class_pipeline_definition)"

text \<open>\<^verbatim>\<open>PachydermEngine.get_definition\<close>; the assignment sets the attribute of the instance.\<close>

definition get_definition :: "env \<Rightarrow> nat \<Rightarrow> world \<Rightarrow> json outcome" where
  "get_definition env self w =
     (if \<not> truthy (pipeline_definition w self)
      then and_then (open_read env (pipeline_template env))
             (\<lambda>text w1.
                case json_load env text of
                  None \<Rightarrow> Returns (Inl JSONDecodeError) w1
                | Some d \<Rightarrow>
                    (let w2 = w1\<lparr>instance_pipeline_definition :=
                                  (instance_pipeline_definition w1)(self \<mapsto> d)\<rparr>
                     in Returns (Inr (pipeline_definition w2 self)) w2)) w
      else Returns (Inr (pipeline_definition w self)) w)"

text \<open>A sequence of calls of \<^verbatim>\<open>get_definition\<close>, each on the instance named; the values
  returned are collected.\<close>

fun get_definitions :: "env \<Rightarrow> nat list \<Rightarrow> world \<Rightarrow> (error + json) list \<times> world" where
  "get_definitions env [] w = ([], w)"
| "get_definitions env (self # rest) w =
     (case get_definition env self w of
        Returns r w1 \<Rightarrow> (let (rs, w2) = get_definitions env rest w1 in (r # rs, w2))
      | Hangs w1 \<Rightarrow> ([], w1))"

definition world0 :: world where
  "world0 = \<lparr>trace = [], instance_pipeline_definition = Map.empty, queue = [], received = 0,
             subscribed = False, watch_task = NotStarted, pipeline_fut = NotStarted\<rparr>"

section \<open>Sessions\<close>

record repo_handle =
  repo_get_name :: string

record pipeline_handle =
  pipeline_name :: string

text \<open>The session dictionary; the key \<^verbatim>\<open>'pipeline'\<close> is set once the pipeline is bound.\<close>

record session =
  session_name :: string
  data :: repo_handle
  processors :: repo_handle
  pipeline :: "pipeline_handle option"

text \<open>
  Modelled from the spec: \<^verbatim>\<open>make_repo\<close> (\<^verbatim>\<open>pachyderm_proxy/repo.py\<close>) and
  \<^verbatim>\<open>make_pipeline\<close> (\<^verbatim>\<open>pachyderm_proxy/pipeline.py\<close>) are missing from the sources.
  Sections 3, 4.1 and 7 of the specification: entering creates the repository or binds the
  pipeline, and a failure there is a provisioning error; leaving deletes it, and a failure of
  the deletion is logged and swallowed, never raised.
\<close>

definition make_repo_enter :: "env \<Rightarrow> string \<Rightarrow> world \<Rightarrow> repo_handle outcome" where
  "make_repo_enter env name w =
     (if create_fails env name then Returns (Inl (ProvisioningError name)) (call (CreateRepo name) w)
      else Returns (Inr \<lparr>repo_get_name = name\<rparr>) (call (CreateRepo name) w))"

definition make_repo_exit :: "env \<Rightarrow> repo_handle \<Rightarrow> world \<Rightarrow> world" where
  "make_repo_exit env r w =
     (if delete_fails env (repo_get_name r)
      then call (CleanupFailed (repo_get_name r)) (call (DeleteRepo (repo_get_name r)) w)
      else call (DeleteRepo (repo_get_name r)) w)"

definition make_pipeline_enter :: "env \<Rightarrow> json \<Rightarrow> session \<Rightarrow> world \<Rightarrow> pipeline_handle outcome" where
  "make_pipeline_enter env definition' session w =
     (if create_fails env (session_name session)
      then Returns (Inl (ProvisioningError (session_name session)))
             (call (CreatePipeline (session_name session)) w)
      else Returns (Inr \<lparr>pipeline_name = session_name session\<rparr>)
             (call (CreatePipeline (session_name session)) w))"

definition make_pipeline_exit :: "env \<Rightarrow> pipeline_handle \<Rightarrow> world \<Rightarrow> world" where
  "make_pipeline_exit env p w =
     (if delete_fails env (pipeline_name p)
      then call (CleanupFailed (pipeline_name p)) (call (DeletePipeline (pipeline_name p)) w)
      else call (DeletePipeline (pipeline_name p)) w)"

text \<open>
  \<^verbatim>\<open>PachydermEngine.make_session\<close>, a generator-based context manager: \<open>body\<close> is the
  block of the \<^verbatim>\<open>with\<close> statement that uses it, run at the \<^verbatim>\<open>yield\<close>.
\<close>

definition make_session ::
  "env \<Rightarrow> nat \<Rightarrow> (session \<Rightarrow> world \<Rightarrow> 'a outcome) \<Rightarrow> world \<Rightarrow> 'a outcome" where
  "make_session env self body =
     (let name = ''doorstep-'' @ uuid4 env;
          data_name = name @ ''-data'';
          processors_name = name @ ''-processors''
      in and_then (get_definition env self) (\<lambda>pipeline_definition'.
           with_cm (make_repo_enter env data_name) (make_repo_exit env) (\<lambda>data_repo.
             with_cm (make_repo_enter env processors_name) (make_repo_exit env) (\<lambda>processors_repo.
               (let session = \<lparr>session_name = name, data = data_repo,
                                processors = processors_repo, pipeline = None\<rparr>
                in with_cm (make_pipeline_enter env pipeline_definition' session)
                     (make_pipeline_exit env)
                     (\<lambda>pipeline'. body (session\<lparr>pipeline := Some pipeline'\<rparr>)))))))"

section \<open>Staging\<close>

text \<open>
  Modelled from the spec: \<^verbatim>\<open>make_commit\<close> of the repository proxy
  (\<^verbatim>\<open>pachyderm_proxy/repo.py\<close>) is missing from the sources. Section 4.2: a push writes a
  new commit on the branch named; the commit is opened on entering and closed on leaving.
\<close>

definition make_commit_enter :: "env \<Rightarrow> repo_handle \<Rightarrow> string \<Rightarrow> world \<Rightarrow> PachydermCommit outcome" where
  "make_commit_enter env r branch w =
     Returns (Inr \<lparr>commit_repo = RepoName (repo_get_name r),
                   commit_name = new_commit env (repo_get_name r) branch,
                   commit_provenance = None\<rparr>)
       (call (StartCommit (repo_get_name r) branch) w)"

definition make_commit_exit :: "PachydermCommit \<Rightarrow> world \<Rightarrow> world" where
  "make_commit_exit c w = call (FinishCommit (get_full_name c)) w"

text \<open>\<^verbatim>\<open>PachydermCommit.put_file_bytes\<close> and \<^verbatim>\<open>PachydermCommit.put_file_url\<close>.\<close>

definition put_file_bytes :: "PachydermCommit \<Rightarrow> path \<Rightarrow> content \<Rightarrow> world \<Rightarrow> unit outcome" where
  "put_file_bytes c filename content' w =
     Returns (Inr ()) (call (PutFileBytes (get_full_name c) filename content') w)"

definition put_file_url :: "PachydermCommit \<Rightarrow> path \<Rightarrow> string \<Rightarrow> world \<Rightarrow> unit outcome" where
  "put_file_url c filename url w =
     Returns (Inr ()) (call (PutFileUrl (get_full_name c) filename url) w)"

text \<open>The conversion \<^verbatim>\<open>%s\<close> of the \<^verbatim>\<open>%\<close> operator.\<close>

fun percent_s :: "env \<Rightarrow> content \<Rightarrow> string" where
  "percent_s env (Str s) = s"
| "percent_s env (Bytes b) = repr_bytes env b"

text \<open>
  The subscript \<^verbatim>\<open>session[category]\<close> and the lookup of \<^verbatim>\<open>make_commit\<close> on its value.
  The keys \<^verbatim>\<open>'data'\<close> and \<^verbatim>\<open>'processors'\<close> hold a repository. The key \<^verbatim>\<open>'name'\<close> holds
  a string and the key \<^verbatim>\<open>'pipeline'\<close>, once set, the pipeline, neither of which has the
  method; any other key is missing.
\<close>

definition session_repo :: "session \<Rightarrow> string \<Rightarrow> world \<Rightarrow> repo_handle outcome" where
  "session_repo session category w =
     (if category = ''data'' then Returns (Inr (data session)) w
      else if category = ''processors'' then Returns (Inr (processors session)) w
      else if category = ''name'' then Returns (Inl (AttributeError ''make_commit'')) w
      else if category = ''pipeline''
      then (case pipeline session of
              None \<Rightarrow> Returns (Inl (KeyError category)) w
            | Some p \<Rightarrow> Returns (Inl (AttributeError ''make_commit'')) w)
      else Returns (Inl (KeyError category)) w)"

text \<open>\<^verbatim>\<open>PachydermEngine._add_file\<close>; \<^verbatim>\<open>if bucket\<close> holds for a string that is not empty.\<close>

definition underscore_add_file ::
  "env \<Rightarrow> string \<Rightarrow> path \<Rightarrow> content \<Rightarrow> session \<Rightarrow> string option \<Rightarrow> world \<Rightarrow> unit outcome" where
  "underscore_add_file env category filename content' session bucket =
     and_then (session_repo session category) (\<lambda>r.
       with_cm (make_commit_enter env r ''master'') make_commit_exit (\<lambda>commit.
         (case bucket of
            None \<Rightarrow> put_file_bytes commit filename content'
          | Some b \<Rightarrow>
              if b \<noteq> []
              then put_file_url commit filename (''s3://'' @ b @ ''/'' @ percent_s env content')
              else put_file_bytes commit filename content')))"

definition add_processor :: "env \<Rightarrow> string \<Rightarrow> content \<Rightarrow> session \<Rightarrow> world \<Rightarrow> unit outcome" where
  "add_processor env module_name content' session =
     (let filename = ''/'' @ module_name @ ''.py''
      in underscore_add_file env ''processors'' filename content' session None)"

definition add_data ::
  "env \<Rightarrow> path \<Rightarrow> content \<Rightarrow> session \<Rightarrow> string option \<Rightarrow> world \<Rightarrow> unit outcome" where
  "add_data env filename content' session bucket =
     (let filename' = ''/'' @ filename
      in underscore_add_file env ''data'' filename' content' session bucket)"

section \<open>The completion race\<close>

text \<open>\<^verbatim>\<open>session['pipeline']\<close>.\<close>

definition session_pipeline :: "session \<Rightarrow> world \<Rightarrow> pipeline_handle outcome" where
  "session_pipeline session w =
     (case pipeline session of
        None \<Rightarrow> Returns (Inl (KeyError ''pipeline'')) w
      | Some p \<Rightarrow> Returns (Inr p) w)"

text \<open>
  The loop of \<^verbatim>\<open>watch_for_output\<close> over the commits that \<^verbatim>\<open>commit_queue.get()\<close> will
  return, in order. \<open>provenance = None\<close> is the initial \<^verbatim>\<open>provenance = False\<close>, which
  equals no set; \<open>commit = None\<close> is the variable \<^verbatim>\<open>commit\<close> before its first assignment;
  \<open>k\<close> counts the commits taken. With no commit left the task stays suspended in
  \<^verbatim>\<open>commit_queue.get()\<close>. Iterating over \<^verbatim>\<open>commit.get_provenance()\<close> raises
  \<^verbatim>\<open>TypeError\<close> when it is \<^verbatim>\<open>None\<close>.
\<close>

datatype loop_result =
    LoopExit "PachydermCommit option" nat
  | LoopBlocked nat
  | LoopRaised error nat

fun watch_loop ::
  "string set \<Rightarrow> string set option \<Rightarrow> PachydermCommit option \<Rightarrow> nat \<Rightarrow> PachydermCommit list
     \<Rightarrow> loop_result" where
  "watch_loop input_repos provenance commit k stream =
     (if \<not> (Some input_repos = provenance)
      then (case stream of
              [] \<Rightarrow> LoopBlocked k
            | c # rest \<Rightarrow>
                (case get_provenance c of
                   None \<Rightarrow> LoopRaised TypeError (Suc k)
                 | Some ps \<Rightarrow>
                     watch_loop input_repos (Some (set (map repo_name ps))) (Some c) (Suc k) rest))
      else LoopExit commit k)"

text \<open>
  \<^verbatim>\<open>PachydermEngine.watch_for_output\<close>, run on the commits the subscription delivers:
  subscribe, loop, put the commit on the queue, unsubscribe. The subscription calls
  \<^verbatim>\<open>watch_commits\<close> and \<^verbatim>\<open>stop_watching_commits\<close> belong to the missing
  \<^verbatim>\<open>pachyderm_proxy/pipeline.py\<close>; they open and close the subscription (Section 4.4 of
  the specification).
\<close>

definition watch_for_output :: "session \<Rightarrow> PachydermCommit list \<Rightarrow> world \<Rightarrow> unit outcome" where
  "watch_for_output session stream =
     and_then (session_pipeline session) (\<lambda>p w.
       (let w1 = w\<lparr>subscribed := True\<rparr>;
            input_repos = {repo_get_name (data session), repo_get_name (processors session)}
        in case watch_loop input_repos None None 0 stream of
             LoopBlocked k \<Rightarrow> Hangs (w1\<lparr>received := k\<rparr>)
           | LoopRaised e k \<Rightarrow> Returns (Inl e) (w1\<lparr>received := k\<rparr>)
           | LoopExit None k \<Rightarrow> Returns (Inl UnboundLocalError) (w1\<lparr>received := k\<rparr>)
           | LoopExit (Some commit) k \<Rightarrow>
               Returns (Inr ())
                 (w1\<lparr>received := k, queue := queue w1 @ [commit], subscribed := False\<rparr>)))"

text \<open>
  \<^verbatim>\<open>PachydermEngine.monitor_pipeline\<close>: a new queue and the two tasks, scheduled and not
  yet run; the method returns the job-wait future and the coroutine \<^verbatim>\<open>queue.get()\<close>.
\<close>

definition monitor_pipeline :: "env \<Rightarrow> session \<Rightarrow> world \<Rightarrow> unit outcome" where
  "monitor_pipeline env session w =
     Returns (Inr ()) (w\<lparr>queue := [], watch_task := Pending, pipeline_fut := Pending\<rparr>)"

text \<open>What the job-wait task ends with once it has run to its end.\<close>

definition job_wait_result :: "env \<Rightarrow> error + unit" where
  "job_wait_result env = fst (wait_for_pipeline (the_job env) poller0)"

text \<open>
  \<^verbatim>\<open>commit = await monitor_output\<close> in \<^verbatim>\<open>run\<close>: the coroutine is suspended in
  \<^verbatim>\<open>queue.get()\<close> while the event loop runs the two tasks. The watcher task runs
  \<^verbatim>\<open>watch_for_output\<close>; an exception it raises stays in the task. The job-wait task runs
  \<^verbatim>\<open>wait_for_pipeline\<close> and completes once \<open>job_wait_after env\<close> commits have been
  taken from the subscription (or, when fewer ever arrive, after the last); its result or
  exception stays in the future. \<^verbatim>\<open>run\<close> resumes only when the queue holds a commit.
\<close>

definition await_monitor_output :: "env \<Rightarrow> session \<Rightarrow> world \<Rightarrow> PachydermCommit outcome" where
  "await_monitor_output env session w =
     (case watch_for_output session (commit_stream env) w of
        Hangs w1 \<Rightarrow> Hangs (w1\<lparr>pipeline_fut := Finished (job_wait_result env)\<rparr>)
      | Returns (Inl e) w1 \<Rightarrow>
          Hangs (w1\<lparr>watch_task := Finished (Inl e),
                    pipeline_fut := Finished (job_wait_result env)\<rparr>)
      | Returns (Inr u) w1 \<Rightarrow>
          (case queue w1 of
             [] \<Rightarrow> Hangs (w1\<lparr>watch_task := Finished (Inr ()),
                              pipeline_fut := Finished (job_wait_result env)\<rparr>)
           | commit # q \<Rightarrow>
               Returns (Inr commit)
                 (w1\<lparr>queue := q, watch_task := Finished (Inr ()),
                     pipeline_fut := (if job_wait_after env < received w1
                                      then Finished (job_wait_result env) else Pending)\<rparr>)))"

text \<open>\<^verbatim>\<open>monitor_pipeline.cancel()\<close>: a future that is done stays as it is.\<close>

definition cancel :: "world \<Rightarrow> unit outcome" where
  "cancel w =
     (case pipeline_fut w of
        Pending \<Rightarrow> Returns (Inr ()) (w\<lparr>pipeline_fut := Cancelled\<rparr>)
      | _ \<Rightarrow> Returns (Inr ()) w)"

section \<open>The output and the run\<close>

text \<open>A value a method returns to the caller of the engine.\<close>

datatype pyval = PStr string | PList "pyval list"

text \<open>
  Modelled from the spec: \<^verbatim>\<open>pull_output\<close> of \<^verbatim>\<open>pachyderm_proxy/pipeline.py\<close> is missing
  from the sources. Sections 4.2 and 4.5: it pulls the raw bytes of the path from the output
  commit, split on line boundaries, and fails with a not-found error when the path is absent.
\<close>

definition pull_output :: "env \<Rightarrow> pipeline_handle \<Rightarrow> path \<Rightarrow> world \<Rightarrow> bytes list outcome" where
  "pull_output env p file_path w =
     (case output_files env file_path of
        None \<Rightarrow> Returns (Inl (NotFound file_path)) (call (PullOutput (pipeline_name p) file_path) w)
      | Some lines \<Rightarrow> Returns (Inr lines) (call (PullOutput (pipeline_name p) file_path) w))"

text \<open>\<^verbatim>\<open>PachydermEngine.get_output\<close>: a list that holds one string.\<close>

definition get_output :: "env \<Rightarrow> session \<Rightarrow> world \<Rightarrow> pyval outcome" where
  "get_output env session =
     and_then (session_pipeline session) (\<lambda>p.
       and_then (pull_output env p ''/doorstep.out'') (\<lambda>output.
         (case those (map (decode_utf8 env) output) of
            None \<Rightarrow> raises UnicodeDecodeError
          | Some lines \<Rightarrow> returns (PList [PStr (join newline lines)]))))"

text \<open>The block of the \<^verbatim>\<open>with\<close> statement of \<^verbatim>\<open>PachydermEngine.run\<close>.\<close>

definition run_block ::
  "env \<Rightarrow> path \<Rightarrow> path \<Rightarrow> string option \<Rightarrow> session \<Rightarrow> world \<Rightarrow> pyval outcome" where
  "run_block env filename workflow_module bucket session =
     and_then
       (and_then (open_read env workflow_module) (\<lambda>text.
          add_processor env ''processor'' (Bytes (encode_utf8 env text)) session))
       (\<lambda>u1.
     and_then
       (case bucket of
          None \<Rightarrow> and_then (open_read env filename) (\<lambda>text. returns (Bytes (encode_utf8 env text)))
        | Some b \<Rightarrow>
            if b \<noteq> [] then returns (Str filename)
            else and_then (open_read env filename) (\<lambda>text. returns (Bytes (encode_utf8 env text))))
       (\<lambda>content'.
     and_then (add_data env ''data.csv'' content' session bucket) (\<lambda>u2.
     and_then (monitor_pipeline env session) (\<lambda>u3.
     and_then (await_monitor_output env session) (\<lambda>commit.
     and_then cancel (\<lambda>u4.
     get_output env session))))))"

text \<open>\<^verbatim>\<open>PachydermEngine.run\<close> on the engine instance \<open>self\<close>.\<close>

definition run ::
  "env \<Rightarrow> nat \<Rightarrow> path \<Rightarrow> path \<Rightarrow> string option \<Rightarrow> world \<Rightarrow> pyval outcome" where
  "run env self filename workflow_module bucket =
     make_session env self (run_block env filename workflow_module bucket)"

section \<open>Observations and examples\<close>

text \<open>What a caller sees of an outcome: the value or exception, or nothing (no return).\<close>

fun result_of :: "'a outcome \<Rightarrow> (error + 'a) option" where
  "result_of (Returns r w) = Some r"
| "result_of (Hangs w) = None"

text \<open>A poller after \<open>p\<close> more state queries and \<open>t\<close> more ticks of the same delay.\<close>

definition ticked :: "nat \<Rightarrow> nat \<Rightarrow> rat \<Rightarrow> poller \<Rightarrow> poller" where
  "ticked p t delay s =
     s\<lparr>polls := polls s + p, sleeps := sleeps s @ replicate t delay,
       stdout := stdout s @ replicate t (Write ''.'')\<rparr>"

text \<open>What \<^verbatim>\<open>wait_for_pipeline\<close> prints for the logs of a failed job.\<close>

definition display :: "log list \<Rightarrow> out list" where
  "display logs =
     (if logs \<noteq> []
      then [PrintLog (hd logs), Print (join newline (map (\<lambda>l. rstrip (message l)) logs))]
      else [])"

text \<open>The calls a deletion leaves in the trace: the deletion, and the note of its failure.\<close>

definition cleanup :: "env \<Rightarrow> action \<Rightarrow> string \<Rightarrow> action list" where
  "cleanup env a name = (if delete_fails env name then [a, CleanupFailed name] else [a])"

text \<open>The staging calls of a trace: the commits opened and the files pushed.\<close>

fun is_staging :: "action \<Rightarrow> bool" where
  "is_staging (StartCommit r b) = True"
| "is_staging (PutFileBytes c p x) = True"
| "is_staging (PutFileUrl c p u) = True"
| "is_staging a = False"

definition staged :: "world \<Rightarrow> action list" where
  "staged w = filter is_staging (trace w)"

text \<open>How often a file was opened.\<close>

definition opened :: "path \<Rightarrow> world \<Rightarrow> nat" where
  "opened p w = length (filter (\<lambda>a. a = OpenFile p) (trace w))"

text \<open>The examples use the codec on ASCII text, where UTF-8 maps a character to one byte.\<close>

definition ascii_encode :: "string \<Rightarrow> bytes" where
  "ascii_encode s = map (\<lambda>c. of_nat (of_char c)) s"

definition ascii_decode :: "bytes \<Rightarrow> string option" where
  "ascii_decode b =
     (if list_all (\<lambda>x. x < 128) b then Some (map (\<lambda>x. char_of (unat x)) b) else None)"

definition example_commit :: "string \<Rightarrow> string list \<Rightarrow> PachydermCommit" where
  "example_commit cid names =
     \<lparr>commit_repo = RepoName ''doorstep-u1'', commit_name = cid,
      commit_provenance = Some (map (\<lambda>n. \<lparr>prov_id = ''c'', repo_name = n\<rparr>) names)\<rparr>"

text \<open>A commit for which the cluster lists no provenance.\<close>

definition bare_commit :: raw_commit where
  "bare_commit =
     \<lparr>raw_commit_repo = ''doorstep-u1'', raw_commit_id = ''c0'', raw_commit_provenance = []\<rparr>"

definition finishing_job :: job where
  "finishing_job =
     \<lparr>state_at = (\<lambda>k. if k < 2 then JOB_PENDING else if k < 5 then JOB_RUNNING else JOB_SUCCEEDED),
      job_logs = []\<rparr>"

definition failing_job :: job where
  "failing_job =
     \<lparr>state_at = (\<lambda>k. if k < 2 then JOB_PENDING else if k < 5 then JOB_RUNNING else JOB_FAILED),
      job_logs = [\<lparr>message = ''boom''\<rparr>, \<lparr>message = ''line2''\<rparr>]\<rparr>"

definition stuck_job :: job where
  "stuck_job = \<lparr>state_at = (\<lambda>k. if k < 2 then JOB_PENDING else JOB_RUNNING), job_logs = []\<rparr>"

definition example_definition :: json where
  "example_definition = JObj [(''pipeline'', JStr ''doorstep'')]"

definition example_env :: env where
  "example_env =
     \<lparr>files = [''proc.py'' \<mapsto> ''print(1)'', ''in.csv'' \<mapsto> ''a,b'', ''doorstep.json'' \<mapsto> ''{}''],
      pipeline_template = ''doorstep.json'',
      json_load = (\<lambda>text. Some example_definition),
      encode_utf8 = ascii_encode,
      decode_utf8 = ascii_decode,
      repr_bytes = (\<lambda>b. ''bytes''),
      uuid4 = ''u1'',
      create_fails = (\<lambda>name. False),
      delete_fails = (\<lambda>name. False),
      new_commit = (\<lambda>repo branch. branch),
      commit_stream =
        [example_commit ''c1'' [''doorstep-u1-data''],
         example_commit ''c2'' [''doorstep-u1-processors''],
         example_commit ''c3'' [''doorstep-u1-processors'', ''doorstep-u1-data'']],
      job_wait_after = 5,
      the_job = finishing_job,
      output_files = [''/doorstep.out'' \<mapsto> [ascii_encode ''ok'', ascii_encode ''done'']]\<rparr>"

definition example_session :: session where
  "example_session =
     \<lparr>session_name = ''doorstep-u1'', data = \<lparr>repo_get_name = ''doorstep-u1-data''\<rparr>,
      processors = \<lparr>repo_get_name = ''doorstep-u1-processors''\<rparr>,
      pipeline = Some \<lparr>pipeline_name = ''doorstep-u1''\<rparr>\<rparr>"

text \<open>The pushes of a trace, and what a staging call aims at: the repository and branch of
  a commit opened, the commit and path of a file pushed.\<close>

fun is_push :: "action \<Rightarrow> bool" where
  "is_push (PutFileBytes c p x) = True"
| "is_push (PutFileUrl c p u) = True"
| "is_push a = False"

definition pushed :: "world \<Rightarrow> action list" where
  "pushed w = filter is_push (trace w)"

fun target :: "action \<Rightarrow> string \<times> string" where
  "target (StartCommit r b) = (r, b)"
| "target (PutFileBytes c p x) = (c, p)"
| "target (PutFileUrl c p u) = (c, p)"
| "target a = ([], [])"

text \<open>The push of the dataset, by the bucket given.\<close>

definition data_push :: "env \<Rightarrow> string \<Rightarrow> path \<Rightarrow> string \<Rightarrow> string option \<Rightarrow> action" where
  "data_push env commit filename text bucket =
     (case bucket of
        None \<Rightarrow> PutFileBytes commit ''/data.csv'' (Bytes (encode_utf8 env text))
      | Some b \<Rightarrow>
          if b \<noteq> [] then PutFileUrl commit ''/data.csv'' (''s3://'' @ b @ ''/'' @ filename)
          else PutFileBytes commit ''/data.csv'' (Bytes (encode_utf8 env text)))"

text \<open>The example with a job that fails: with no commit ever delivered, and with the matching
  commit delivered after the job-wait task has ended.\<close>

definition failing_env :: env where
  "failing_env = example_env\<lparr>the_job := failing_job, commit_stream := [], job_wait_after := 0\<rparr>"

definition late_commit_env :: env where
  "late_commit_env = example_env\<lparr>the_job := failing_job, job_wait_after := 0\<rparr>"

text \<open>The errors that only the job-wait raises.\<close>

fun from_job_wait :: "error \<Rightarrow> bool" where
  "from_job_wait (JobFailedException logs) = True"
| "from_job_wait (RetryExhausted suffix) = True"
| "from_job_wait e = False"

text \<open>The example with the failing job, the job-wait task ending after the first commit and
  before the matching one.\<close>

definition failing_midway_env :: env where
  "failing_midway_env = example_env\<lparr>the_job := failing_job, job_wait_after := 1\<rparr>"

section \<open>Properties of the job-state wait\<close>

lemma ticked_0: "ticked 0 0 d s = s"
  by (simp add: ticked_def)

lemma tick_ticked:
  "ticked p t d (tick_callback d (s\<lparr>polls := Suc (polls s)\<rparr>)) = ticked (Suc p) (Suc t) d s"
  by (simp add: ticked_def tick_callback_def replicate_append_same)

lemma polls_tick: "polls (tick_callback d (s\<lparr>polls := Suc (polls s)\<rparr>)) = Suc (polls s)"
  by (simp add: tick_callback_def)

lemma wait_for_run_exhausted:
  "(\<forall>i<n. state_at j (polls s + i) \<in> set waiting) \<Longrightarrow>
   wait_for_run j n waiting (tick_callback d) sfx s = (Inl (RetryExhausted sfx), ticked n n d s)"
proof (induction n arbitrary: s)
  case 0
  then show ?case by (simp add: ticked_0)
next
  case (Suc n)
  let ?s1 = "tick_callback d (s\<lparr>polls := Suc (polls s)\<rparr>)"
  from Suc.prems have here: "state_at j (polls s) \<in> set waiting"
    by (metis add.right_neutral zero_less_Suc)
  have "\<forall>i<n. state_at j (polls ?s1 + i) \<in> set waiting"
  proof (intro allI impI)
    fix i assume "i < n"
    then have "Suc i < Suc n" by simp
    with Suc.prems have "state_at j (polls s + Suc i) \<in> set waiting" by blast
    then show "state_at j (polls ?s1 + i) \<in> set waiting" by (simp add: polls_tick)
  qed
  then have "wait_for_run j n waiting (tick_callback d) sfx ?s1 = (Inl (RetryExhausted sfx), ticked n n d ?s1)"
    by (rule Suc.IH)
  with here show ?case by (simp add: Let_def tick_ticked)
qed

lemma wait_for_run_leaves:
  "k < n \<Longrightarrow> (\<forall>i<k. state_at j (polls s + i) \<in> set waiting) \<Longrightarrow>
   state_at j (polls s + k) \<notin> set waiting \<Longrightarrow>
   wait_for_run j n waiting (tick_callback d) sfx s =
     (if state_at j (polls s + k) = JOB_FAILED then Inl (JobFailedException (job_logs j))
      else Inr (state_at j (polls s + k)), ticked (Suc k) k d s)"
proof (induction n arbitrary: s k)
  case 0
  then show ?case by simp
next
  case (Suc n)
  show ?case
  proof (cases k)
    case 0
    with Suc.prems show ?thesis by (simp add: Let_def ticked_def)
  next
    case (Suc k')
    let ?s1 = "tick_callback d (s\<lparr>polls := Suc (polls s)\<rparr>)"
    from Suc Suc.prems have here: "state_at j (polls s) \<in> set waiting"
      by (metis add.right_neutral zero_less_Suc)
    have a: "k' < n" using Suc Suc.prems by simp
    have b: "\<forall>i<k'. state_at j (polls ?s1 + i) \<in> set waiting"
    proof (intro allI impI)
      fix i assume "i < k'"
      then have "Suc i < k" using Suc by simp
      with Suc.prems have "state_at j (polls s + Suc i) \<in> set waiting" by blast
      then show "state_at j (polls ?s1 + i) \<in> set waiting" by (simp add: polls_tick)
    qed
    have c: "state_at j (polls ?s1 + k') \<notin> set waiting"
      using Suc.prems(3) Suc by (simp add: polls_tick)
    have "wait_for_run j n waiting (tick_callback d) sfx ?s1 =
       (if state_at j (polls ?s1 + k') = JOB_FAILED then Inl (JobFailedException (job_logs j))
        else Inr (state_at j (polls ?s1 + k')), ticked (Suc k') k' d ?s1)"
      using a b c by (rule Suc.IH)
    with here Suc show ?thesis by (simp add: Let_def tick_ticked polls_tick)
  qed
qed

lemma polls_ticked: "polls (ticked p t d s) = polls s + p"
  by (simp add: ticked_def)

lemma ticked_ticked: "ticked p t d (ticked p' t' d s) = ticked (p' + p) (t' + t) d s"
  by (simp add: ticked_def replicate_add)

text \<open>
  Claim C5. The job-state wait has exactly two phases with independent retry budgets. Let the
  job be \<^verbatim>\<open>PENDING\<close> at the first \<open>k\<close> queries (\<open>k\<close> at most the start budget 120) and,
  if it leaves \<^verbatim>\<open>PENDING\<close> in time, be in \<^verbatim>\<open>STARTING\<close> or \<^verbatim>\<open>RUNNING\<close> at the next
  \<open>m\<close> queries (\<open>m\<close> at most the finish budget 50). When \<open>k = 120\<close> the wait fails with
  the retry-exhausted error of the start phase after 120 queries, and the finish phase makes
  no query. Otherwise the finish phase has all of its 50 attempts, whatever \<open>k\<close> was: with
  \<open>m = 50\<close> it fails with the retry-exhausted error of the finish phase, with \<open>m < 50\<close>
  it returns the state reached. Every sleep between attempts, in both phases, is
  \<open>retry_delay\<close>.
\<close>

theorem two_phase_wait:
  assumes "k \<le> 120"
      and "\<forall>i<k. state_at j (polls s + i) = JOB_PENDING"
      and "k < 120 \<longrightarrow> state_at j (polls s + k) \<notin> {JOB_PENDING, JOB_FAILED}"
      and "m \<le> 50"
      and "\<forall>i<m. state_at j (polls s + k + 1 + i) \<in> {JOB_STARTING, JOB_RUNNING}"
      and "m < 50 \<longrightarrow> state_at j (polls s + k + 1 + m) \<notin> {JOB_STARTING, JOB_RUNNING, JOB_FAILED}"
  shows "underscore_wait_for_pipeline j retry_count retry_processing_count retry_delay s =
           (if k = 120 then (Inl (RetryExhausted '' to start''), ticked 120 120 retry_delay s)
            else if m = 50
            then (Inl (RetryExhausted '' to finish''), ticked (k + 1 + 50) (k + 50) retry_delay s)
            else (Inr (state_at j (polls s + k + 1 + m)), ticked (k + 1 + m + 1) (k + m) retry_delay s))"
proof (cases "k = 120")
  case True
  with assms(2) have "\<forall>i<120. state_at j (polls s + i) \<in> set default_waiting_states"
    by (simp add: default_waiting_states_def)
  then have "wait_for_run j 120 default_waiting_states (tick_callback retry_delay) '' to start'' s
      = (Inl (RetryExhausted '' to start''), ticked 120 120 retry_delay s)"
    by (rule wait_for_run_exhausted)
  with True show ?thesis
    by (simp add: underscore_wait_for_pipeline_def retry_count_def)
next
  case False
  with assms(1) have k: "k < 120" by simp
  let ?s1 = "ticked (Suc k) k retry_delay s"
  have p1: "\<forall>i<k. state_at j (polls s + i) \<in> set default_waiting_states"
    using assms(2) by (simp add: default_waiting_states_def)
  have e1: "state_at j (polls s + k) \<notin> set default_waiting_states"
    using assms(3) k by (simp add: default_waiting_states_def)
  have nf: "state_at j (polls s + k) \<noteq> JOB_FAILED"
    using assms(3) k by simp
  have start: "wait_for_run j 120 default_waiting_states (tick_callback retry_delay) '' to start'' s
      = (Inr (state_at j (polls s + k)), ?s1)"
    using wait_for_run_leaves [OF k p1 e1, of retry_delay "'' to start''"] nf by simp
  have p2: "\<forall>i<m. state_at j (polls ?s1 + i) \<in> set [JOB_STARTING, JOB_RUNNING]"
    using assms(5) by (simp add: polls_ticked add.commute add.left_commute)
  show ?thesis
  proof (cases "m = 50")
    case True
    with p2 have "\<forall>i<50. state_at j (polls ?s1 + i) \<in> set [JOB_STARTING, JOB_RUNNING]" by simp
    then have "wait_for_run j 50 [JOB_STARTING, JOB_RUNNING] (tick_callback retry_delay) '' to finish'' ?s1
        = (Inl (RetryExhausted '' to finish''), ticked 50 50 retry_delay ?s1)"
      by (rule wait_for_run_exhausted)
    with start True False show ?thesis
      by (simp add: underscore_wait_for_pipeline_def retry_count_def retry_processing_count_def
            ticked_ticked)
  next
    case m50: False
    with assms(4) have m: "m < 50" by simp
    have e2: "state_at j (polls ?s1 + m) \<notin> set [JOB_STARTING, JOB_RUNNING]"
      using assms(6) m by (simp add: polls_ticked add.commute add.left_commute)
    have nf2: "state_at j (polls ?s1 + m) \<noteq> JOB_FAILED"
      using assms(6) m by (simp add: polls_ticked add.commute add.left_commute)
    have "wait_for_run j 50 [JOB_STARTING, JOB_RUNNING] (tick_callback retry_delay) '' to finish'' ?s1
        = (Inr (state_at j (polls ?s1 + m)), ticked (Suc m) m retry_delay ?s1)"
      using wait_for_run_leaves [OF m p2 e2, of retry_delay "'' to finish''"] nf2 by simp
    with start m50 False show ?thesis
      by (simp add: underscore_wait_for_pipeline_def retry_count_def retry_processing_count_def
            ticked_ticked polls_ticked add.commute add.left_commute)
  qed
qed

theorem two_phase_wait_witness:
  "underscore_wait_for_pipeline stuck_job retry_count retry_processing_count retry_delay poller0 =
     (Inl (RetryExhausted '' to finish''),
      \<lparr>polls = 53, sleeps = replicate 52 retry_delay, stdout = replicate 52 (Write ''.'')\<rparr>)"
proof -
  have h1: "(2::nat) \<le> 120" and h4: "(50::nat) \<le> 50"
    by simp_all
  have h2: "\<forall>i<2. state_at stuck_job (polls poller0 + i) = JOB_PENDING"
    by (simp add: stuck_job_def poller0_def)
  have h3: "(2::nat) < 120 \<longrightarrow> state_at stuck_job (polls poller0 + 2) \<notin> {JOB_PENDING, JOB_FAILED}"
    by (simp add: stuck_job_def poller0_def)
  have h5: "\<forall>i<50. state_at stuck_job (polls poller0 + 2 + 1 + i) \<in> {JOB_STARTING, JOB_RUNNING}"
    by (simp add: stuck_job_def poller0_def)
  have h6: "(50::nat) < 50 \<longrightarrow>
      state_at stuck_job (polls poller0 + 2 + 1 + 50) \<notin> {JOB_STARTING, JOB_RUNNING, JOB_FAILED}"
    by simp
  from two_phase_wait [OF h1 h2 h3 h4 h5 h6] show ?thesis
    by (simp add: poller0_def ticked_def)
qed

lemma wait_for_pipeline_failed:
  assumes "underscore_wait_for_pipeline j retry_count retry_processing_count retry_delay s
             = (Inl (JobFailedException logs), s1)"
  shows "wait_for_pipeline j s = (Inl (JobFailedException logs), s1\<lparr>stdout := stdout s1 @ display logs\<rparr>)"
  using assms by (simp add: wait_for_pipeline_def display_def)

text \<open>
  The job-wait task on a job that ends in state \<^verbatim>\<open>FAILED\<close> (seen when the job leaves
  \<^verbatim>\<open>PENDING\<close>, or in the finish phase after \<open>m\<close> queries in \<^verbatim>\<open>STARTING\<close> or
  \<^verbatim>\<open>RUNNING\<close>): \<^verbatim>\<open>wait_for_pipeline\<close> raises the job-failed error that carries the
  job's log lines in their order; it prints the first log entry, then all messages; and the
  error it raises is the one the two-phase wait raised, not another.
\<close>

lemma wait_for_pipeline_raises_job_failed:
  assumes "k < 120"
      and "\<forall>i<k. state_at j (polls s + i) = JOB_PENDING"
      and "state_at j (polls s + k) = JOB_FAILED \<and> n = k \<and> p = k + 1
           \<or> state_at j (polls s + k) \<in> {JOB_STARTING, JOB_RUNNING} \<and> m < 50
             \<and> (\<forall>i<m. state_at j (polls s + k + 1 + i) \<in> {JOB_STARTING, JOB_RUNNING})
             \<and> state_at j (polls s + k + 1 + m) = JOB_FAILED \<and> n = k + m \<and> p = k + m + 2"
  shows "wait_for_pipeline j s =
           (Inl (JobFailedException (job_logs j)),
            (ticked p n retry_delay s)
              \<lparr>stdout := stdout s @ replicate n (Write ''.'') @
                 (if job_logs j \<noteq> []
                  then [PrintLog (hd (job_logs j)),
                        Print (join newline (map (\<lambda>l. rstrip (message l)) (job_logs j)))]
                  else [])\<rparr>)
         \<and> fst (wait_for_pipeline j s)
             = map_sum id (\<lambda>job. ())
                 (fst (underscore_wait_for_pipeline j retry_count retry_processing_count
                         retry_delay s))"
proof -
  let ?s1 = "ticked (Suc k) k retry_delay s"
  have p1: "\<forall>i<k. state_at j (polls s + i) \<in> set default_waiting_states"
    using assms(2) by (simp add: default_waiting_states_def)
  have inner: "underscore_wait_for_pipeline j retry_count retry_processing_count retry_delay s
      = (Inl (JobFailedException (job_logs j)), ticked p n retry_delay s)"
    using assms(3)
  proof (elim disjE conjE)
    assume f: "state_at j (polls s + k) = JOB_FAILED" and n: "n = k" and p: "p = k + 1"
    from f have e1: "state_at j (polls s + k) \<notin> set default_waiting_states"
      by (simp add: default_waiting_states_def)
    have "wait_for_run j 120 default_waiting_states (tick_callback retry_delay) '' to start'' s
        = (Inl (JobFailedException (job_logs j)), ?s1)"
      using wait_for_run_leaves [OF assms(1) p1 e1, of retry_delay "'' to start''"] f by simp
    then show ?thesis
      by (simp add: underscore_wait_for_pipeline_def retry_count_def n p)
  next
    assume st: "state_at j (polls s + k) \<in> {JOB_STARTING, JOB_RUNNING}" and m: "m < 50"
      and run: "\<forall>i<m. state_at j (polls s + k + 1 + i) \<in> {JOB_STARTING, JOB_RUNNING}"
      and fl: "state_at j (polls s + k + 1 + m) = JOB_FAILED"
      and n: "n = k + m" and p: "p = k + m + 2"
    have e1: "state_at j (polls s + k) \<notin> set default_waiting_states"
      using st by (auto simp: default_waiting_states_def)
    have nf: "state_at j (polls s + k) \<noteq> JOB_FAILED"
      using st by auto
    have start: "wait_for_run j 120 default_waiting_states (tick_callback retry_delay) '' to start'' s
        = (Inr (state_at j (polls s + k)), ?s1)"
      using wait_for_run_leaves [OF assms(1) p1 e1, of retry_delay "'' to start''"] nf by simp
    have p2: "\<forall>i<m. state_at j (polls ?s1 + i) \<in> set [JOB_STARTING, JOB_RUNNING]"
      using run by (simp add: polls_ticked add.commute add.left_commute)
    have f: "state_at j (polls ?s1 + m) = JOB_FAILED"
      using fl by (simp add: polls_ticked add.commute add.left_commute)
    then have e2: "state_at j (polls ?s1 + m) \<notin> set [JOB_STARTING, JOB_RUNNING]"
      by simp
    have finish: "wait_for_run j 50 [JOB_STARTING, JOB_RUNNING] (tick_callback retry_delay)
          '' to finish'' ?s1
        = (Inl (JobFailedException (job_logs j)), ticked (Suc m) m retry_delay ?s1)"
      using wait_for_run_leaves [OF m p2 e2, of retry_delay "'' to finish''"] f by simp
    show ?thesis
      using start finish
      by (simp add: underscore_wait_for_pipeline_def retry_count_def retry_processing_count_def
            ticked_ticked add.commute add.left_commute n p)
  qed
  have "wait_for_pipeline j s =
      (Inl (JobFailedException (job_logs j)),
       (ticked p n retry_delay s)
         \<lparr>stdout := stdout (ticked p n retry_delay s) @ display (job_logs j)\<rparr>)"
    using inner by (rule wait_for_pipeline_failed)
  then show ?thesis using inner by (simp add: ticked_def display_def)
qed

lemma wait_for_pipeline_raises_job_failed_example:
  "wait_for_pipeline failing_job poller0 =
     (Inl (JobFailedException [\<lparr>message = ''boom''\<rparr>, \<lparr>message = ''line2''\<rparr>]),
      \<lparr>polls = 6, sleeps = replicate 4 retry_delay,
       stdout = replicate 4 (Write ''.'') @
          [PrintLog \<lparr>message = ''boom''\<rparr>, Print (''boom'' @ newline @ ''line2'')]\<rparr>)"
proof -
  have h1: "(2::nat) < 120"
    by simp
  have h2: "\<forall>i<2. state_at failing_job (polls poller0 + i) = JOB_PENDING"
    by (simp add: failing_job_def poller0_def)
  have h3: "state_at failing_job (polls poller0 + 2) = JOB_FAILED \<and> (4::nat) = 2 \<and> (6::nat) = 2 + 1
           \<or> state_at failing_job (polls poller0 + 2) \<in> {JOB_STARTING, JOB_RUNNING} \<and> (2::nat) < 50
             \<and> (\<forall>i<2. state_at failing_job (polls poller0 + 2 + 1 + i) \<in> {JOB_STARTING, JOB_RUNNING})
             \<and> state_at failing_job (polls poller0 + 2 + 1 + 2) = JOB_FAILED
             \<and> (4::nat) = 2 + 2 \<and> (6::nat) = 2 + 2 + 2"
    by (simp add: failing_job_def poller0_def)
  from wait_for_pipeline_raises_job_failed [OF h1 h2 h3] show ?thesis
    by (simp add: failing_job_def poller0_def ticked_def display_def rstrip_def isspace_def)
qed

section \<open>Properties of sessions and of the run\<close>

text \<open>
  Claim C7. Once the session is open, however the block of the \<^verbatim>\<open>with\<close> statement ends
  (a value, an exception, a cancellation: any \<open>res\<close>), the session deletes the pipeline
  first, then the processors repository, then the data repository, and the block's own result
  is what leaves the session.
\<close>

theorem make_session_teardown:
  assumes "n = ''doorstep-'' @ uuid4 env"
      and "get_definition env self w = Returns (Inr d) w1"
      and "\<not> create_fails env (n @ ''-data'')"
      and "\<not> create_fails env (n @ ''-processors'')"
      and "\<not> create_fails env n"
      and "body \<lparr>session_name = n, data = \<lparr>repo_get_name = n @ ''-data''\<rparr>,
                  processors = \<lparr>repo_get_name = n @ ''-processors''\<rparr>,
                  pipeline = Some \<lparr>pipeline_name = n\<rparr>\<rparr>
             (call (CreatePipeline n) (call (CreateRepo (n @ ''-processors''))
                (call (CreateRepo (n @ ''-data'')) w1))) = Returns res w2"
  shows "make_session env self body w =
           Returns res (w2\<lparr>trace := trace w2
              @ cleanup env (DeletePipeline n) n
              @ cleanup env (DeleteRepo (n @ ''-processors'')) (n @ ''-processors'')
              @ cleanup env (DeleteRepo (n @ ''-data'')) (n @ ''-data'')\<rparr>)"
  using assms
  by (simp add: make_session_def Let_def and_then_def with_cm_def make_repo_enter_def
        make_pipeline_enter_def make_repo_exit_def make_pipeline_exit_def call_def cleanup_def)

theorem make_session_teardown_witness:
  "trace (world_of (make_session example_env 0 (\<lambda>session. raises CancelledError) world0)) =
     [OpenFile ''doorstep.json'', CreateRepo ''doorstep-u1-data'',
      CreateRepo ''doorstep-u1-processors'', CreatePipeline ''doorstep-u1'',
      DeletePipeline ''doorstep-u1'', DeleteRepo ''doorstep-u1-processors'',
      DeleteRepo ''doorstep-u1-data'']
   \<and> result_of (make_session example_env 0 (\<lambda>session. raises CancelledError) world0)
       = Some (Inl CancelledError)"
proof -
  let ?w1 = "world0\<lparr>trace := [OpenFile ''doorstep.json''],
                   instance_pipeline_definition := [0 \<mapsto> example_definition]\<rparr>"
  have n: "''doorstep-u1'' = ''doorstep-'' @ uuid4 example_env"
    by (simp add: example_env_def)
  have d: "get_definition example_env 0 world0 = Returns (Inr example_definition) ?w1"
    by (simp add: get_definition_def example_env_def world0_def pipeline_definition_def
          class_pipeline_definition_def and_then_def open_read_def call_def example_definition_def)
  have c1: "\<not> create_fails example_env (''doorstep-u1'' @ ''-data'')"
   and c2: "\<not> create_fails example_env (''doorstep-u1'' @ ''-processors'')"
   and c3: "\<not> create_fails example_env ''doorstep-u1''"
    by (simp_all add: example_env_def)
  have b: "(\<lambda>session. raises CancelledError)
      \<lparr>session_name = ''doorstep-u1'', data = \<lparr>repo_get_name = ''doorstep-u1'' @ ''-data''\<rparr>,
         processors = \<lparr>repo_get_name = ''doorstep-u1'' @ ''-processors''\<rparr>,
         pipeline = Some \<lparr>pipeline_name = ''doorstep-u1''\<rparr>\<rparr>
      (call (CreatePipeline ''doorstep-u1'') (call (CreateRepo (''doorstep-u1'' @ ''-processors''))
         (call (CreateRepo (''doorstep-u1'' @ ''-data'')) ?w1)))
     = Returns (Inl CancelledError)
         (call (CreatePipeline ''doorstep-u1'') (call (CreateRepo (''doorstep-u1'' @ ''-processors''))
         (call (CreateRepo (''doorstep-u1'' @ ''-data'')) ?w1)))"
    by (simp add: raises_def)
  note r = make_session_teardown [where body = "\<lambda>session. raises CancelledError", OF n d c1 c2 c3 b]
  show ?thesis
    unfolding r by (simp add: call_def cleanup_def example_env_def world0_def)
qed

lemma and_then_Inr:
  "and_then m f w = Returns (Inr v) w' \<Longrightarrow>
   \<exists>a w1. m w = Returns (Inr a) w1 \<and> f a w1 = Returns (Inr v) w'"
  by (auto simp: and_then_def split: outcome.splits sum.splits)

lemma with_cm_Inr:
  "with_cm en ex body w = Returns (Inr v) w' \<Longrightarrow>
   \<exists>r w1 w2. en w = Returns (Inr r) w1 \<and> body r w1 = Returns (Inr v) w2 \<and> w' = ex r w2"
  by (auto simp: with_cm_def split: outcome.splits sum.splits)

lemma get_output_Inr:
  assumes "get_output env session w = Returns (Inr v) w'"
  shows "\<exists>output lines. output_files env ''/doorstep.out'' = Some output
           \<and> those (map (decode_utf8 env) output) = Some lines
           \<and> v = PList [PStr (join newline lines)]"
  using assms
  by (auto simp: get_output_def and_then_def session_pipeline_def pull_output_def returns_def
        raises_def split: option.splits outcome.splits sum.splits)

lemma run_block_Inr:
  assumes "run_block env filename workflow_module bucket session w = Returns (Inr v) w'"
  shows "\<exists>w1. get_output env session w1 = Returns (Inr v) w'"
proof -
  from assms obtain u1 w1 where
    "and_then
       (case bucket of
          None \<Rightarrow> and_then (open_read env filename) (\<lambda>text. returns (Bytes (encode_utf8 env text)))
        | Some b \<Rightarrow>
            if b \<noteq> [] then returns (Str filename)
            else and_then (open_read env filename) (\<lambda>text. returns (Bytes (encode_utf8 env text))))
       (\<lambda>content'.
     and_then (add_data env ''data.csv'' content' session bucket) (\<lambda>u2.
     and_then (monitor_pipeline env session) (\<lambda>u3.
     and_then (await_monitor_output env session) (\<lambda>commit.
     and_then cancel (\<lambda>u4.
     get_output env session))))) w1 = Returns (Inr v) w'"
    unfolding run_block_def by (blast dest: and_then_Inr)
  then show ?thesis
    by (blast dest: and_then_Inr)
qed

text \<open>
  Claim C4, as amended. The value a successful run returns is a list with one element, the
  report string: the lines pulled from \<^verbatim>\<open>/doorstep.out\<close>, each decoded, joined with
  newlines.
\<close>

theorem run_returns_report_list:
  assumes "result_of (run env self filename workflow_module bucket w) = Some (Inr v)"
  shows "\<exists>output lines. output_files env ''/doorstep.out'' = Some output
           \<and> those (map (decode_utf8 env) output) = Some lines
           \<and> v = PList [PStr (join newline lines)]"
proof -
  from assms obtain w' where "run env self filename workflow_module bucket w = Returns (Inr v) w'"
    by (cases "run env self filename workflow_module bucket w") auto
  then obtain session w1 w2 where
    "run_block env filename workflow_module bucket session w1 = Returns (Inr v) w2"
    unfolding run_def make_session_def Let_def
    by (blast dest: and_then_Inr with_cm_Inr)
  then obtain w3 w4 where "get_output env session w3 = Returns (Inr v) w4"
    by (blast dest: run_block_Inr)
  then show ?thesis by (rule get_output_Inr)
qed

lemma example_run_result: "result_of (run example_env 0 ''in.csv'' ''proc.py'' None world0)
   = Some (Inr (PList [PStr (''ok'' @ newline @ ''done'')]))"
  by code_simp

text \<open>
  Claim C4 as stated fails: the run of the example returns the list that holds the report
  string, not the string.
\<close>

theorem run_returns_string_counterexample:
  "result_of (run example_env 0 ''in.csv'' ''proc.py'' None world0)
     = Some (Inr (PList [PStr (''ok'' @ newline @ ''done'')]))
   \<and> result_of (run example_env 0 ''in.csv'' ''proc.py'' None world0)
     \<noteq> Some (Inr (PStr (''ok'' @ newline @ ''done'')))"
  by (simp add: example_run_result)

theorem run_returns_report_list_witness:
  "\<exists>output lines. output_files example_env ''/doorstep.out'' = Some output
      \<and> those (map (decode_utf8 example_env) output) = Some lines
      \<and> PList [PStr (''ok'' @ newline @ ''done'')] = PList [PStr (join newline lines)]"
  using example_run_result by (rule run_returns_report_list)

section \<open>The cache of the pipeline definition\<close>

lemma attr_after_call:
  assumes "get_definition env self w = Returns (Inr d) w1" and "truthy d"
  shows "instance_pipeline_definition w1 self = Some d"
  using assms
  by (auto simp: get_definition_def pipeline_definition_def class_pipeline_definition_def
        and_then_def open_read_def Let_def split: if_splits option.splits)

lemma cached_call:
  assumes "instance_pipeline_definition w self = Some d" and "truthy d"
  shows "get_definition env self w = Returns (Inr d) w"
  using assms by (simp add: get_definition_def pipeline_definition_def)

lemma attr_kept:
  assumes "instance_pipeline_definition w self = Some d" and "truthy d"
  shows "instance_pipeline_definition (world_of (get_definition env other w)) self = Some d"
proof (cases "other = self")
  case True
  with assms show ?thesis by (simp add: cached_call)
next
  case False
  with assms show ?thesis
    by (auto simp: get_definition_def and_then_def open_read_def call_def Let_def
          split: option.splits)
qed

lemma attr_kept_calls:
  assumes "instance_pipeline_definition w self = Some d" and "truthy d"
  shows "instance_pipeline_definition (snd (get_definitions env selfs w)) self = Some d"
  using assms(1)
proof (induction selfs arbitrary: w)
  case Nil
  then show ?case by simp
next
  case (Cons other rest)
  have k: "instance_pipeline_definition (world_of (get_definition env other w)) self = Some d"
    using Cons.prems assms(2) by (rule attr_kept)
  show ?case
  proof (cases "get_definition env other w")
    case (Returns r w1)
    with k have "instance_pipeline_definition w1 self = Some d" by simp
    then have "instance_pipeline_definition (snd (get_definitions env rest w1)) self = Some d"
      by (rule Cons.IH)
    with Returns show ?thesis by (simp add: split_def Let_def)
  next
    case (Hangs w1)
    with k show ?thesis by simp
  qed
qed

text \<open>
  Claim C9, as amended. The definition is cached per engine instance: once a call on an
  instance has returned a definition that is not empty, every later call on that instance,
  after any calls on this or other instances, returns the same value and leaves the world as
  it is; in particular it opens no file.
\<close>

theorem get_definition_cached_per_instance:
  assumes "get_definition env self w = Returns (Inr d) w1" and "truthy d"
  shows "get_definition env self (snd (get_definitions env selfs w1))
           = Returns (Inr d) (snd (get_definitions env selfs w1))"
proof -
  have "instance_pipeline_definition w1 self = Some d"
    using assms by (rule attr_after_call)
  then have "instance_pipeline_definition (snd (get_definitions env selfs w1)) self = Some d"
    using assms(2) by (rule attr_kept_calls)
  then show ?thesis using assms(2) by (rule cached_call)
qed

text \<open>
  Claim C9 as stated fails: a first call on one engine instance and then a call on another
  instance of the same process open the template file twice.
\<close>

theorem get_definition_read_twice_counterexample:
  "fst (get_definitions example_env [0, 1] world0) = [Inr example_definition, Inr example_definition]
   \<and> opened ''doorstep.json'' (snd (get_definitions example_env [0, 1] world0)) = 2"
  by code_simp

theorem get_definition_cached_per_instance_witness:
  "result_of (get_definition example_env 0 (snd (get_definitions example_env [1, 0]
      (world0\<lparr>trace := [OpenFile ''doorstep.json''],
               instance_pipeline_definition := [0 \<mapsto> example_definition]\<rparr>))))
     = Some (Inr example_definition)
   \<and> opened ''doorstep.json'' (world_of (get_definition example_env 0
        (snd (get_definitions example_env [1, 0]
          (world0\<lparr>trace := [OpenFile ''doorstep.json''],
                   instance_pipeline_definition := [0 \<mapsto> example_definition]\<rparr>))))) = 2"
proof -
  let ?w1 = "world0\<lparr>trace := [OpenFile ''doorstep.json''],
                   instance_pipeline_definition := [0 \<mapsto> example_definition]\<rparr>"
  have d: "get_definition example_env 0 world0 = Returns (Inr example_definition) ?w1"
    by (simp add: get_definition_def example_env_def world0_def pipeline_definition_def
          class_pipeline_definition_def and_then_def open_read_def call_def example_definition_def)
  have t: "truthy example_definition"
    by (simp add: example_definition_def)
  have o: "opened ''doorstep.json'' (snd (get_definitions example_env [1, 0] ?w1)) = 2"
    by code_simp
  show ?thesis
    unfolding get_definition_cached_per_instance [OF d t, of "[1, 0]"]
    using o by simp
qed

section \<open>The subscription path and the race\<close>

text \<open>
  The loop of the watcher on commits that all list a provenance: commits whose set of
  repository names differs from the target are discarded, and the first commit whose set
  equals it ends the loop. The order in which the entries are listed plays no part, since the
  names are compared as a set.
\<close>

lemma watch_loop_first_match_from:
  assumes "list_all (\<lambda>x. case get_provenance x of None \<Rightarrow> False
                          | Some ps \<Rightarrow> set (map repo_name ps) \<noteq> input_repos) pre"
      and "get_provenance c = Some ps"
      and "set (map repo_name ps) = input_repos"
      and "provenance \<noteq> Some input_repos"
  shows "watch_loop input_repos provenance commit k (pre @ c # rest)
           = LoopExit (Some c) (k + length pre + 1)"
  using assms(1,4)
proof (induction pre arbitrary: provenance commit k)
  case Nil
  with assms(2,3) show ?case by auto
next
  case (Cons x pre)
  from Cons.prems(1) obtain qs where q: "get_provenance x = Some qs"
    and ne: "set (map repo_name qs) \<noteq> input_repos"
    and rest: "list_all (\<lambda>x. case get_provenance x of None \<Rightarrow> False
                          | Some ps \<Rightarrow> set (map repo_name ps) \<noteq> input_repos) pre"
    by (auto split: option.splits)
  have "watch_loop input_repos (Some (set (map repo_name qs))) (Some x) (Suc k) (pre @ c # rest)
      = LoopExit (Some c) (Suc k + length pre + 1)"
    using rest ne by (intro Cons.IH) auto
  with Cons.prems(2) q show ?case by auto
qed

lemma watch_loop_prefix_discarded:
  assumes "list_all (\<lambda>x. case get_provenance x of None \<Rightarrow> False
                          | Some ps \<Rightarrow> set (map repo_name ps) \<noteq> input_repos) pre"
      and "provenance \<noteq> Some input_repos"
  shows "watch_loop input_repos provenance commit k pre = LoopBlocked (k + length pre)"
  using assms
proof (induction pre arbitrary: provenance commit k)
  case Nil
  then show ?case by auto
next
  case (Cons x pre)
  from Cons.prems(1) obtain qs where q: "get_provenance x = Some qs"
    and ne: "set (map repo_name qs) \<noteq> input_repos"
    and rest: "list_all (\<lambda>x. case get_provenance x of None \<Rightarrow> False
                          | Some ps \<Rightarrow> set (map repo_name ps) \<noteq> input_repos) pre"
    by (auto split: option.splits)
  have "watch_loop input_repos (Some (set (map repo_name qs))) (Some x) (Suc k) pre
      = LoopBlocked (Suc k + length pre)"
    using rest ne by (intro Cons.IH) auto
  with Cons.prems(2) q show ?case by auto
qed

text \<open>
  Claim C3 fails on the code at a commit for which the cluster lists no provenance:
  \<^verbatim>\<open>from_raw\<close> gives it the provenance \<^verbatim>\<open>None\<close>, and the watcher, iterating over it,
  raises \<^verbatim>\<open>TypeError\<close> instead of discarding the commit.
\<close>

theorem watch_for_output_no_provenance_raises:
  "get_provenance (from_raw bare_commit) = None
   \<and> result_of (watch_for_output example_session [from_raw bare_commit] world0)
       = Some (Inl TypeError)"
  by (simp add: get_provenance_def from_raw_def bare_commit_def watch_for_output_def
        and_then_def session_pipeline_def example_session_def Let_def)

text \<open>
  Claim C2 fails on the code at a sequence in which a commit without provenance comes before
  the first matching commit: the watcher raises \<^verbatim>\<open>TypeError\<close> at the first commit, the
  matching commit is never put on the queue, and the subscription stays open.
\<close>

theorem watch_for_output_match_after_no_provenance:
  "result_of (watch_for_output example_session
       [from_raw bare_commit,
        example_commit ''c3'' [''doorstep-u1-processors'', ''doorstep-u1-data'']] world0)
     = Some (Inl TypeError)
   \<and> queue (world_of (watch_for_output example_session
       [from_raw bare_commit,
        example_commit ''c3'' [''doorstep-u1-processors'', ''doorstep-u1-data'']] world0)) = []
   \<and> subscribed (world_of (watch_for_output example_session
       [from_raw bare_commit,
        example_commit ''c3'' [''doorstep-u1-processors'', ''doorstep-u1-data'']] world0))"
  by (simp add: get_provenance_def from_raw_def bare_commit_def watch_for_output_def
        and_then_def session_pipeline_def example_session_def Let_def world0_def)

text \<open>The three commits of the example, with the provenance sets \<open>{data}\<close>,
  \<open>{processors}\<close> and \<open>{processors, data}\<close>: the third is put on the queue, and the
  subscription is closed only then.\<close>

lemma watch_for_output_three_commits:
  "result_of (watch_for_output example_session (commit_stream example_env) world0) = Some (Inr ())
   \<and> queue (world_of (watch_for_output example_session (commit_stream example_env) world0))
       = [example_commit ''c3'' [''doorstep-u1-processors'', ''doorstep-u1-data'']]
   \<and> received (world_of (watch_for_output example_session (commit_stream example_env) world0)) = 3
   \<and> \<not> subscribed (world_of (watch_for_output example_session (commit_stream example_env) world0))"
  by (simp add: get_provenance_def example_env_def watch_for_output_def example_commit_def
        and_then_def session_pipeline_def example_session_def Let_def world0_def insert_commute)

text \<open>
  Claim C1 fails on the code when the job fails: the job-wait task ends with the job-failed
  error, which stays in the future \<^verbatim>\<open>pipeline_fut\<close>. With no commit delivered, \<^verbatim>\<open>run\<close>
  never returns and the subscription stays open; with the matching commit delivered later,
  \<^verbatim>\<open>run\<close> returns the report and the error is lost.
\<close>

theorem run_job_failure_not_propagated:
  "job_wait_result failing_env
     = Inl (JobFailedException [\<lparr>message = ''boom''\<rparr>, \<lparr>message = ''line2''\<rparr>])
   \<and> result_of (run failing_env 0 ''in.csv'' ''proc.py'' None world0) = None
   \<and> pipeline_fut (world_of (run failing_env 0 ''in.csv'' ''proc.py'' None world0))
       = Finished (Inl (JobFailedException [\<lparr>message = ''boom''\<rparr>, \<lparr>message = ''line2''\<rparr>]))
   \<and> subscribed (world_of (run failing_env 0 ''in.csv'' ''proc.py'' None world0))
   \<and> result_of (run late_commit_env 0 ''in.csv'' ''proc.py'' None world0)
       = Some (Inr (PList [PStr (''ok'' @ newline @ ''done'')]))"
  by code_simp

text \<open>
  No error of the job-wait leaves \<^verbatim>\<open>run\<close>: whatever \<^verbatim>\<open>run\<close> raises was raised by the
  session, the staging or the retrieval of the output, since \<^verbatim>\<open>run\<close> never awaits the
  job-wait future.
\<close>

lemma and_then_quiet:
  assumes "\<And>w e w'. m w = Returns (Inl e) w' \<Longrightarrow> \<not> from_job_wait e"
      and "\<And>a w e w'. f a w = Returns (Inl e) w' \<Longrightarrow> \<not> from_job_wait e"
      and "and_then m f w = Returns (Inl e) w'"
  shows "\<not> from_job_wait e"
proof (cases "m w")
  case (Returns r w1)
  show ?thesis
  proof (cases r)
    case (Inl e1)
    with Returns assms(3) have "e = e1" by (simp add: and_then_def)
    with Returns Inl assms(1) show ?thesis by blast
  next
    case (Inr a)
    with Returns assms(3) have "f a w1 = Returns (Inl e) w'" by (simp add: and_then_def)
    then show ?thesis by (rule assms(2))
  qed
next
  case (Hangs w1)
  with assms(3) show ?thesis by (simp add: and_then_def)
qed

lemma with_cm_quiet:
  assumes "\<And>w e w'. en w = Returns (Inl e) w' \<Longrightarrow> \<not> from_job_wait e"
      and "\<And>r w e w'. body r w = Returns (Inl e) w' \<Longrightarrow> \<not> from_job_wait e"
      and "with_cm en ex body w = Returns (Inl e) w'"
  shows "\<not> from_job_wait e"
proof (cases "en w")
  case (Returns r w1)
  show ?thesis
  proof (cases r)
    case (Inl e1)
    with Returns assms(3) have "e = e1" by (simp add: with_cm_def)
    with Returns Inl assms(1) show ?thesis by blast
  next
    case (Inr a)
    with Returns assms(3) obtain w2 where "body a w1 = Returns (Inl e) w2"
      by (auto simp: with_cm_def split: outcome.splits)
    then show ?thesis by (rule assms(2))
  qed
next
  case (Hangs w1)
  with assms(3) show ?thesis by (simp add: with_cm_def)
qed

lemma open_read_quiet: "open_read env p w = Returns (Inl e) w' \<Longrightarrow> \<not> from_job_wait e"
  by (auto simp: open_read_def split: option.splits)

lemma get_definition_quiet: "get_definition env self w = Returns (Inl e) w' \<Longrightarrow> \<not> from_job_wait e"
  by (auto simp: get_definition_def and_then_def open_read_def Let_def
        split: if_splits option.splits)

lemma add_file_quiet:
  "underscore_add_file env category filename content' session bucket w = Returns (Inl e) w'
     \<Longrightarrow> \<not> from_job_wait e"
  by (auto simp: underscore_add_file_def and_then_def session_repo_def with_cm_def
        make_commit_enter_def put_file_bytes_def put_file_url_def
        split: option.splits if_splits)

lemma await_monitor_output_quiet:
  "await_monitor_output env session w = Returns (Inl e) w' \<Longrightarrow> \<not> from_job_wait e"
  by (auto simp: await_monitor_output_def split: outcome.splits sum.splits list.splits)

lemma cancel_quiet: "cancel w = Returns (Inl e) w' \<Longrightarrow> \<not> from_job_wait e"
  by (auto simp: cancel_def split: task.splits)

lemma get_output_quiet: "get_output env session w = Returns (Inl e) w' \<Longrightarrow> \<not> from_job_wait e"
  by (auto simp: get_output_def and_then_def session_pipeline_def pull_output_def
        returns_def raises_def split: option.splits)

lemma content_quiet:
  "(case bucket of
      None \<Rightarrow> and_then (open_read env filename) (\<lambda>text. returns (Bytes (encode_utf8 env text)))
    | Some b \<Rightarrow>
        if b \<noteq> [] then returns (Str filename)
        else and_then (open_read env filename) (\<lambda>text. returns (Bytes (encode_utf8 env text))))
     w = Returns (Inl e) w' \<Longrightarrow> \<not> from_job_wait e"
  by (auto simp: and_then_def open_read_def returns_def split: option.splits if_splits)

lemma run_block_quiet:
  assumes "run_block env filename workflow_module bucket session w = Returns (Inl e) w'"
  shows "\<not> from_job_wait e"
  using assms unfolding run_block_def
  by (elim and_then_quiet [rotated 2])
     (auto simp: add_processor_def add_data_def monitor_pipeline_def
        dest: open_read_quiet add_file_quiet content_quiet await_monitor_output_quiet
              cancel_quiet get_output_quiet)

lemma make_session_quiet:
  assumes "\<And>session w e w'. body session w = Returns (Inl e) w' \<Longrightarrow> \<not> from_job_wait e"
      and "make_session env self body w = Returns (Inl e) w'"
  shows "\<not> from_job_wait e"
  using assms(2) unfolding make_session_def Let_def
  by (elim and_then_quiet [rotated 2] with_cm_quiet [rotated 2])
     (auto simp: make_repo_enter_def make_pipeline_enter_def
        dest: get_definition_quiet assms(1) split: if_splits)

lemma run_never_raises_job_wait_error:
  assumes "result_of (run env self filename workflow_module bucket w) = Some (Inl e)"
  shows "\<not> from_job_wait e"
proof -
  from assms obtain w' where "run env self filename workflow_module bucket w = Returns (Inl e) w'"
    by (cases "run env self filename workflow_module bucket w") auto
  then show ?thesis
    unfolding run_def by (rule make_session_quiet [rotated]) (rule run_block_quiet)
qed

text \<open>
  Claim C6 fails on the code: on the job that ends in state \<^verbatim>\<open>FAILED\<close> with the logs
  \<open>boom\<close>, \<open>line2\<close>, \<^verbatim>\<open>wait_for_pipeline\<close> raises the job-failed error with the two
  lines in their order, but the error stays in the job-wait future; \<^verbatim>\<open>run\<close> returns the
  report to its caller.
\<close>

theorem run_loses_job_failed_error:
  "fst (wait_for_pipeline failing_job poller0)
     = Inl (JobFailedException [\<lparr>message = ''boom''\<rparr>, \<lparr>message = ''line2''\<rparr>])
   \<and> pipeline_fut (world_of (run failing_midway_env 0 ''in.csv'' ''proc.py'' None world0))
       = Finished (Inl (JobFailedException [\<lparr>message = ''boom''\<rparr>, \<lparr>message = ''line2''\<rparr>]))
   \<and> result_of (run failing_midway_env 0 ''in.csv'' ''proc.py'' None world0)
       = Some (Inr (PList [PStr (''ok'' @ newline @ ''done'')]))"
  by code_simp

section \<open>What a run stages\<close>

lemma staged_call: "staged (call a w) = staged w @ (if is_staging a then [a] else [])"
  by (simp add: staged_def call_def)

lemma staged_fields [simp]:
  "staged (w\<lparr>queue := q\<rparr>) = staged w"
  "staged (w\<lparr>received := k\<rparr>) = staged w"
  "staged (w\<lparr>subscribed := b\<rparr>) = staged w"
  "staged (w\<lparr>watch_task := t\<rparr>) = staged w"
  "staged (w\<lparr>pipeline_fut := t\<rparr>) = staged w"
  "staged (w\<lparr>instance_pipeline_definition := m\<rparr>) = staged w"
  by (simp_all add: staged_def)

lemma staged_get_definition:
  "staged (world_of (get_definition env self w)) = staged w"
  by (auto simp: get_definition_def and_then_def open_read_def staged_call Let_def
        split: option.splits)

lemma staged_watch_for_output:
  "staged (world_of (watch_for_output session stream w)) = staged w"
  by (auto simp: watch_for_output_def and_then_def session_pipeline_def Let_def
        simp del: watch_loop.simps split: option.splits loop_result.splits)

lemma staged_await_monitor_output:
  "staged (world_of (await_monitor_output env session w)) = staged w"
proof -
  have "staged (world_of (watch_for_output session (commit_stream env) w)) = staged w"
    by (rule staged_watch_for_output)
  then show ?thesis
    by (auto simp: await_monitor_output_def split: outcome.splits sum.splits list.splits)
qed

lemma staged_cancel: "staged (world_of (cancel w)) = staged w"
  by (auto simp: cancel_def split: task.splits)

lemma staged_get_output: "staged (world_of (get_output env session w)) = staged w"
  by (auto simp: get_output_def and_then_def session_pipeline_def pull_output_def staged_call
        returns_def raises_def split: option.splits)

lemma staged_and_then:
  assumes "\<And>w. staged (world_of (m w)) = staged w"
      and "\<And>a w. staged (world_of (f a w)) = staged w"
  shows "staged (world_of (and_then m f w)) = staged w"
proof (cases "m w")
  case (Returns r w1)
  with assms(1) [of w] have s: "staged w1 = staged w" by simp
  show ?thesis
  proof (cases r)
    case (Inl e)
    with Returns s show ?thesis by (simp add: and_then_def)
  next
    case (Inr a)
    with Returns s assms(2) [of a w1] show ?thesis by (simp add: and_then_def)
  qed
next
  case (Hangs w1)
  with assms(1) [of w] show ?thesis by (simp add: and_then_def)
qed

lemma staged_race:
  "staged (world_of
     (and_then (monitor_pipeline env session) (\<lambda>u3.
      and_then (await_monitor_output env session) (\<lambda>commit.
      and_then cancel (\<lambda>u4.
      get_output env session))) w)) = staged w"
  by (intro staged_and_then staged_get_output staged_cancel staged_await_monitor_output)
     (simp add: monitor_pipeline_def)

lemma staged_add_file:
  assumes "category = ''data'' \<or> category = ''processors''"
  shows "\<exists>w1. underscore_add_file env category filename content' session bucket w = Returns (Inr ()) w1
     \<and> staged w1 = staged w @
        [StartCommit (repo_get_name (if category = ''data'' then data session else processors session)) ''master'',
         (case bucket of
            None \<Rightarrow> PutFileBytes (repo_get_name (if category = ''data'' then data session else processors session) @ ''/'' @ new_commit env (repo_get_name (if category = ''data'' then data session else processors session)) ''master'') filename content'
          | Some b \<Rightarrow>
              if b \<noteq> []
              then PutFileUrl (repo_get_name (if category = ''data'' then data session else processors session) @ ''/'' @ new_commit env (repo_get_name (if category = ''data'' then data session else processors session)) ''master'') filename (''s3://'' @ b @ ''/'' @ percent_s env content')
              else PutFileBytes (repo_get_name (if category = ''data'' then data session else processors session) @ ''/'' @ new_commit env (repo_get_name (if category = ''data'' then data session else processors session)) ''master'') filename content')]"
  using assms
  by (auto simp: underscore_add_file_def and_then_def session_repo_def with_cm_def
        make_commit_enter_def make_commit_exit_def put_file_bytes_def put_file_url_def
        staged_call get_full_name_def split: option.splits)

lemma staged_run_block:
  assumes "files env workflow_module = Some src"
      and "bucket = None \<or> bucket = Some [] \<longrightarrow> files env filename = Some text"
      and "P = repo_get_name (processors session)"
      and "D = repo_get_name (data session)"
  shows "staged (world_of (run_block env filename workflow_module bucket session w)) =
           staged w @
           [StartCommit P ''master'',
            PutFileBytes (P @ ''/'' @ new_commit env P ''master'') ''/processor.py''
              (Bytes (encode_utf8 env src)),
            StartCommit D ''master'',
            data_push env (D @ ''/'' @ new_commit env D ''master'') filename text bucket]"
proof -
  let ?tail = "\<lambda>u2 :: unit. and_then (monitor_pipeline env session) (\<lambda>u3.
      and_then (await_monitor_output env session) (\<lambda>commit.
      and_then cancel (\<lambda>u4.
      get_output env session)))"
  obtain w1 where a1: "underscore_add_file env ''processors'' ''/processor.py''
        (Bytes (encode_utf8 env src)) session None (call (OpenFile workflow_module) w)
        = Returns (Inr ()) w1"
    and s1: "staged w1 = staged w @ [StartCommit P ''master'',
        PutFileBytes (P @ ''/'' @ new_commit env P ''master'') ''/processor.py''
          (Bytes (encode_utf8 env src))]"
    using staged_add_file [of "''processors''" env "''/processor.py''"
        "Bytes (encode_utf8 env src)" session None "call (OpenFile workflow_module) w"]
    by (auto simp: staged_call assms(3))
  have step1: "and_then (open_read env workflow_module) (\<lambda>text.
          add_processor env ''processor'' (Bytes (encode_utf8 env text)) session) w
      = Returns (Inr ()) w1"
    using a1 assms(1) by (simp add: and_then_def open_read_def add_processor_def)
  have "\<exists>c w2. (case bucket of
          None \<Rightarrow> and_then (open_read env filename) (\<lambda>text. returns (Bytes (encode_utf8 env text)))
        | Some b \<Rightarrow>
            if b \<noteq> [] then returns (Str filename)
            else and_then (open_read env filename) (\<lambda>text. returns (Bytes (encode_utf8 env text))))
         w1 = Returns (Inr c) w2
      \<and> staged w2 = staged w1
      \<and> c = (case bucket of None \<Rightarrow> Bytes (encode_utf8 env text)
                 | Some b \<Rightarrow> if b \<noteq> [] then Str filename else Bytes (encode_utf8 env text))"
  proof (cases bucket)
    case None
    with assms(2) show ?thesis
      by (simp add: and_then_def open_read_def returns_def staged_call)
  next
    case (Some b)
    show ?thesis
    proof (cases "b = []")
      case True
      with Some assms(2) show ?thesis
        by (simp add: and_then_def open_read_def returns_def staged_call)
    next
      case False
      with Some show ?thesis by (simp add: returns_def)
    qed
  qed
  then obtain c w2 where step2: "(case bucket of
          None \<Rightarrow> and_then (open_read env filename) (\<lambda>text. returns (Bytes (encode_utf8 env text)))
        | Some b \<Rightarrow>
            if b \<noteq> [] then returns (Str filename)
            else and_then (open_read env filename) (\<lambda>text. returns (Bytes (encode_utf8 env text))))
         w1 = Returns (Inr c) w2"
    and s2: "staged w2 = staged w1"
    and c: "c = (case bucket of None \<Rightarrow> Bytes (encode_utf8 env text)
                 | Some b \<Rightarrow> if b \<noteq> [] then Str filename else Bytes (encode_utf8 env text))"
    by blast
  obtain w3 where a3: "underscore_add_file env ''data'' ''/data.csv'' c session bucket w2
        = Returns (Inr ()) w3"
    and s3: "staged w3 = staged w2 @ [StartCommit D ''master'',
        data_push env (D @ ''/'' @ new_commit env D ''master'') filename text bucket]"
    using staged_add_file [of "''data''" env "''/data.csv''" c session bucket w2]
    by (auto simp: assms(4) c data_push_def split: option.splits)
  have step3: "add_data env ''data.csv'' c session bucket w2 = Returns (Inr ()) w3"
    using a3 by (simp add: add_data_def)
  have "run_block env filename workflow_module bucket session w = ?tail () w3"
    unfolding run_block_def
    by (simp add: and_then_def [where m = "and_then (open_read env workflow_module) f" for f] step1
         and_then_def [where m = "case_option a b bucket" for a b] step2
         and_then_def [where m = "add_data env ''data.csv'' c session bucket"] step3)
  then show ?thesis
    by (simp add: staged_race s1 s2 s3)
qed

lemma make_session_opened:
  assumes "n = ''doorstep-'' @ uuid4 env"
      and "get_definition env self w = Returns (Inr d) w1"
      and "\<not> create_fails env (n @ ''-data'')"
      and "\<not> create_fails env (n @ ''-processors'')"
      and "\<not> create_fails env n"
  shows "make_session env self body w =
           (case body \<lparr>session_name = n, data = \<lparr>repo_get_name = n @ ''-data''\<rparr>,
                  processors = \<lparr>repo_get_name = n @ ''-processors''\<rparr>,
                  pipeline = Some \<lparr>pipeline_name = n\<rparr>\<rparr>
             (call (CreatePipeline n) (call (CreateRepo (n @ ''-processors''))
                (call (CreateRepo (n @ ''-data'')) w1))) of
              Returns res w2 \<Rightarrow>
                Returns res (w2\<lparr>trace := trace w2
                  @ cleanup env (DeletePipeline n) n
                  @ cleanup env (DeleteRepo (n @ ''-processors'')) (n @ ''-processors'')
                  @ cleanup env (DeleteRepo (n @ ''-data'')) (n @ ''-data'')\<rparr>)
            | Hangs w2 \<Rightarrow> Hangs w2)"
  using assms
  by (simp add: make_session_def Let_def and_then_def with_cm_def make_repo_enter_def
        make_pipeline_enter_def make_repo_exit_def make_pipeline_exit_def call_def cleanup_def
        split: outcome.splits)

lemma staged_cleanup:
  "staged (w\<lparr>trace := trace w @ cleanup env (DeletePipeline a) a'
       @ cleanup env (DeleteRepo b) b' @ cleanup env (DeleteRepo c) c'\<rparr>) = staged w"
  by (simp add: staged_def cleanup_def)

lemma staged_run:
  assumes "n = ''doorstep-'' @ uuid4 env"
      and "get_definition env self w = Returns (Inr d) w1"
      and "\<not> create_fails env (n @ ''-data'')"
      and "\<not> create_fails env (n @ ''-processors'')"
      and "\<not> create_fails env n"
      and "files env workflow_module = Some src"
      and "bucket = None \<or> bucket = Some [] \<longrightarrow> files env filename = Some text"
  shows "staged (world_of (run env self filename workflow_module bucket w)) =
           staged w @
           [StartCommit (n @ ''-processors'') ''master'',
            PutFileBytes (n @ ''-processors'' @ ''/'' @ new_commit env (n @ ''-processors'') ''master'')
              ''/processor.py'' (Bytes (encode_utf8 env src)),
            StartCommit (n @ ''-data'') ''master'',
            data_push env (n @ ''-data'' @ ''/'' @ new_commit env (n @ ''-data'') ''master'')
              filename text bucket]"
proof -
  let ?session = "\<lparr>session_name = n, data = \<lparr>repo_get_name = n @ ''-data''\<rparr>,
                  processors = \<lparr>repo_get_name = n @ ''-processors''\<rparr>,
                  pipeline = Some \<lparr>pipeline_name = n\<rparr>\<rparr>"
  let ?w4 = "call (CreatePipeline n) (call (CreateRepo (n @ ''-processors''))
                (call (CreateRepo (n @ ''-data'')) w1))"
  have "staged (world_of (get_definition env self w)) = staged w"
    by (rule staged_get_definition)
  with assms(2) have "staged w1 = staged w" by simp
  then have s4: "staged ?w4 = staged w" by (simp add: staged_call)
  have b: "staged (world_of (run_block env filename workflow_module bucket ?session ?w4)) =
           staged ?w4 @
           [StartCommit (n @ ''-processors'') ''master'',
            PutFileBytes ((n @ ''-processors'') @ ''/'' @ new_commit env (n @ ''-processors'') ''master'')
              ''/processor.py'' (Bytes (encode_utf8 env src)),
            StartCommit (n @ ''-data'') ''master'',
            data_push env ((n @ ''-data'') @ ''/'' @ new_commit env (n @ ''-data'') ''master'')
              filename text bucket]"
    using assms(6,7) by (rule staged_run_block) simp_all
  have "staged (world_of (run env self filename workflow_module bucket w)) =
      staged (world_of (run_block env filename workflow_module bucket ?session ?w4))"
    unfolding run_def make_session_opened [OF assms(1-5)]
    by (cases "run_block env filename workflow_module bucket ?session ?w4")
       (simp_all add: staged_cleanup)
  with b s4 show ?thesis by simp
qed

lemma pushed_staged: "pushed w = filter is_push (staged w)"
proof -
  have "\<And>a. (is_staging a \<and> is_push a) = is_push a"
    by (case_tac a) simp_all
  then show ?thesis by (simp add: pushed_def staged_def)
qed

lemma is_push_data_push: "is_push (data_push env commit filename text bucket)"
  by (simp add: data_push_def split: option.splits)

lemma target_data_push: "target (data_push env commit filename text bucket) = (commit, ''/data.csv'')"
  by (simp add: data_push_def split: option.splits)

lemma example_get_definition:
  "get_definition example_env 0 world0 =
     Returns (Inr example_definition)
       (world0\<lparr>trace := [OpenFile ''doorstep.json''],
               instance_pipeline_definition := [0 \<mapsto> example_definition]\<rparr>)"
  by (simp add: get_definition_def example_env_def world0_def pipeline_definition_def
        class_pipeline_definition_def and_then_def open_read_def call_def example_definition_def)

lemma example_opens:
  "''doorstep-u1'' = ''doorstep-'' @ uuid4 example_env"
  "\<not> create_fails example_env (''doorstep-u1'' @ ''-data'')"
  "\<not> create_fails example_env (''doorstep-u1'' @ ''-processors'')"
  "\<not> create_fails example_env ''doorstep-u1''"
  "files example_env ''proc.py'' = Some ''print(1)''"
  by (simp_all add: example_env_def)

text \<open>
  Claim C8. In a run whose session opens and whose processor module can be read, the dataset
  is pushed once, after the processor module. With a bucket (a string that is not empty) the
  parameter \<open>filename\<close> is taken as an object key and the push is the URL push of
  \<^verbatim>\<open>s3://bucket/key\<close>; no dataset file is read. With no bucket the bytes read from the
  dataset file are pushed by the byte push. (An empty string for the bucket counts as no
  bucket, as \<^verbatim>\<open>if bucket\<close> decides.)
\<close>

theorem run_stages_by_bucket:
  assumes "n = ''doorstep-'' @ uuid4 env"
      and "get_definition env self w = Returns (Inr d) w1"
      and "\<not> create_fails env (n @ ''-data'')"
      and "\<not> create_fails env (n @ ''-processors'')"
      and "\<not> create_fails env n"
      and "files env workflow_module = Some src"
      and "bucket = None \<or> bucket = Some [] \<longrightarrow> files env filename = Some text"
      and "commit = n @ ''-data'' @ ''/'' @ new_commit env (n @ ''-data'') ''master''"
  shows "pushed (world_of (run env self filename workflow_module bucket w)) =
           pushed w @
           [PutFileBytes (n @ ''-processors'' @ ''/'' @ new_commit env (n @ ''-processors'') ''master'')
              ''/processor.py'' (Bytes (encode_utf8 env src)),
            (case bucket of
               None \<Rightarrow> PutFileBytes commit ''/data.csv'' (Bytes (encode_utf8 env text))
             | Some b \<Rightarrow>
                 if b \<noteq> [] then PutFileUrl commit ''/data.csv'' (''s3://'' @ b @ ''/'' @ filename)
                 else PutFileBytes commit ''/data.csv'' (Bytes (encode_utf8 env text)))]"
proof -
  have "pushed (world_of (run env self filename workflow_module bucket w)) =
      pushed w @
      [PutFileBytes (n @ ''-processors'' @ ''/'' @ new_commit env (n @ ''-processors'') ''master'')
         ''/processor.py'' (Bytes (encode_utf8 env src)),
       data_push env commit filename text bucket]"
    unfolding pushed_staged staged_run [OF assms(1-7)] assms(8)
    by (simp add: is_push_data_push)
  then show ?thesis by (simp add: data_push_def)
qed

theorem run_stages_by_bucket_witness:
  "pushed (world_of (run example_env 0 ''in.csv'' ''proc.py'' (Some ''bk'') world0)) =
     [PutFileBytes ''doorstep-u1-processors/master'' ''/processor.py''
        (Bytes (ascii_encode ''print(1)'')),
      PutFileUrl ''doorstep-u1-data/master'' ''/data.csv'' ''s3://bk/in.csv'']
   \<and> pushed (world_of (run example_env 0 ''in.csv'' ''proc.py'' None world0)) =
     [PutFileBytes ''doorstep-u1-processors/master'' ''/processor.py''
        (Bytes (ascii_encode ''print(1)'')),
      PutFileBytes ''doorstep-u1-data/master'' ''/data.csv'' (Bytes (ascii_encode ''a,b''))]"
proof -
  have f1: "Some ''bk'' = None \<or> Some ''bk'' = Some [] \<longrightarrow> files example_env ''in.csv'' = Some ''a,b''"
    by simp
  have f2: "None = None \<or> None = Some [] \<longrightarrow> files example_env ''in.csv'' = Some ''a,b''"
    by (simp add: example_env_def)
  have c: "''doorstep-u1-data/master''
      = ''doorstep-u1'' @ ''-data'' @ ''/'' @ new_commit example_env (''doorstep-u1'' @ ''-data'') ''master''"
    by (simp add: example_env_def)
  note r1 = run_stages_by_bucket [OF example_opens(1) example_get_definition example_opens(2-5) f1 c]
  note r2 = run_stages_by_bucket [OF example_opens(1) example_get_definition example_opens(2-5) f2 c]
  show ?thesis
    unfolding r1 r2 by (simp add: pushed_def world0_def example_env_def)
qed

text \<open>
  Claim C10. In a run whose session opens and whose input can be read, whatever the file
  names given by the caller, the staging calls are, in this order: a commit on the branch
  \<^verbatim>\<open>master\<close> of the processors repository, a push at the path \<^verbatim>\<open>/processor.py\<close> in
  that commit, a commit on the branch \<^verbatim>\<open>master\<close> of the data repository, and a push at the
  path \<^verbatim>\<open>/data.csv\<close> in that commit.
\<close>

theorem run_fixed_paths:
  assumes "n = ''doorstep-'' @ uuid4 env"
      and "get_definition env self w = Returns (Inr d) w1"
      and "\<not> create_fails env (n @ ''-data'')"
      and "\<not> create_fails env (n @ ''-processors'')"
      and "\<not> create_fails env n"
      and "files env workflow_module = Some src"
      and "bucket = None \<or> bucket = Some [] \<longrightarrow> files env filename = Some text"
  shows "map target (staged (world_of (run env self filename workflow_module bucket w))) =
           map target (staged w) @
           [(n @ ''-processors'', ''master''),
            (n @ ''-processors'' @ ''/'' @ new_commit env (n @ ''-processors'') ''master'',
             ''/processor.py''),
            (n @ ''-data'', ''master''),
            (n @ ''-data'' @ ''/'' @ new_commit env (n @ ''-data'') ''master'', ''/data.csv'')]"
  unfolding staged_run [OF assms] by (simp add: target_data_push)

theorem run_fixed_paths_witness:
  "map target (staged (world_of (run example_env 0 ''some/other.csv'' ''proc.py'' (Some ''bk'') world0))) =
     [(''doorstep-u1-processors'', ''master''),
      (''doorstep-u1-processors/master'', ''/processor.py''),
      (''doorstep-u1-data'', ''master''),
      (''doorstep-u1-data/master'', ''/data.csv'')]"
proof -
  have f1: "Some ''bk'' = None \<or> Some ''bk'' = Some [] \<longrightarrow>
      files example_env ''some/other.csv'' = Some ''''"
    by simp
  note r = run_fixed_paths [OF example_opens(1) example_get_definition example_opens(2-5) f1]
  show ?thesis
    unfolding r by (simp add: staged_def world0_def example_env_def)
qed

end
